theory Spec2Isabelle
  imports Main "HOL-Library.Sublist"
begin

section \<open>Python string primitives used by the extractor\<close>


datatype py_error = IndexError | TypeError | ValueError | AttributeError | ZeroDivisionError

fun starts_with :: "string \<Rightarrow> string \<Rightarrow> bool" where
  "starts_with [] s = True"
| "starts_with (p # ps) [] = False"
| "starts_with (p # ps) (c # cs) = (p = c \<and> starts_with ps cs)"

text \<open>\<^verbatim>\<open>sub in s\<close>\<close>

fun contains :: "string \<Rightarrow> string \<Rightarrow> bool" where
  "contains sub [] = (sub = [])"
| "contains sub (c # cs) = (starts_with sub (c # cs) \<or> contains sub cs)"

text \<open>
  \<^verbatim>\<open>s.replace(old, new)\<close>: every non-overlapping occurrence, leftmost first.  After a
  match on \<open>c # cs\<close> with \<open>old\<close> non-empty the scan resumes at
  \<open>drop (length old) (c # cs) = drop (length old - 1) cs\<close>.
\<close>

fun replace :: "string \<Rightarrow> string \<Rightarrow> string \<Rightarrow> string" where
  "replace old new [] = (if old = [] then new else [])"
| "replace old new (c # cs) =
     (if old = [] then new @ c # replace old new cs
      else if starts_with old (c # cs) then new @ replace old new (drop (length old - 1) cs)
      else c # replace old new cs)"

text \<open>
  A Python string is modelled by its UTF-8 bytes (the save file is read with
  \<^verbatim>\<open>encoding='utf-8'\<close>); the patterns, separators and markers of the source are ASCII, so
  matching, splitting and replacing act on the bytes as they do on the characters.

  \<^verbatim>\<open>str.lower()\<close> and \<^verbatim>\<open>str.capitalize()\<close> follow the Unicode character database.  On a
  string of ASCII characters they are the letter maps below.  The database is not part of
  the source; on strings with other characters the two functions are left unspecified,
  except for the following values of Python 3, where \<open>C5 89\<close> is U+0149 and \<open>CA BC\<close> is
  U+02BC: lower-casing keeps U+0149 and turns U+02BC \<open>N\<close> into U+02BC \<open>n\<close>; capitalizing
  turns U+0149 into U+02BC \<open>N\<close> and keeps U+02BC \<open>n\<close>.
\<close>

definition is_ascii :: "string \<Rightarrow> bool" where
  "is_ascii s = list_all (\<lambda>c. (of_char c :: nat) < 128) s"

definition lower_char :: "char \<Rightarrow> char" where
  "lower_char c = (let n = (of_char c :: nat) in if 65 \<le> n \<and> n \<le> 90 then char_of (n + 32) else c)"

definition upper_char :: "char \<Rightarrow> char" where
  "upper_char c = (let n = (of_char c :: nat) in if 97 \<le> n \<and> n \<le> 122 then char_of (n - 32) else c)"

definition ascii_lower :: "string \<Rightarrow> string" where
  "ascii_lower s = map lower_char s"

fun ascii_capitalize :: "string \<Rightarrow> string" where
  "ascii_capitalize [] = []"
| "ascii_capitalize (c # cs) = upper_char c # ascii_lower cs"

definition unicode_lower :: "string \<Rightarrow> string" where
  "unicode_lower s =
     (if s = [CHR 0xC5, CHR 0x89] then [CHR 0xC5, CHR 0x89]
      else if s = [CHR 0xCA, CHR 0xBC, CHR ''N''] then [CHR 0xCA, CHR 0xBC, CHR ''n'']
      else undefined s)"

definition unicode_capitalize :: "string \<Rightarrow> string" where
  "unicode_capitalize s =
     (if s = [CHR 0xC5, CHR 0x89] then [CHR 0xCA, CHR 0xBC, CHR ''N'']
      else if s = [CHR 0xCA, CHR 0xBC, CHR ''n''] then [CHR 0xCA, CHR 0xBC, CHR ''n'']
      else undefined s)"

text \<open>\<^verbatim>\<open>s.lower()\<close>\<close>

definition lower :: "string \<Rightarrow> string" where
  "lower s = (if is_ascii s then ascii_lower s else unicode_lower s)"

text \<open>\<^verbatim>\<open>s.capitalize()\<close>: first character upper-cased, the rest lower-cased.\<close>

definition capitalize :: "string \<Rightarrow> string" where
  "capitalize s = (if is_ascii s then ascii_capitalize s else unicode_capitalize s)"

section \<open>The display-name normalizer\<close>

text \<open>
  \<^verbatim>\<open>
  def gameStringToRead(string:str) -> str:
      string = string.replace('dynn_', '').replace('_lifestyle', '').replace('_perk', '')
      string = string.replace('nick_', '').replace('death_', '').replace('ethos_', '')
      string = string.replace('heritage_', '').replace('martial_custom_', '').replace('tradition_', '')
      string = string.replace('fp2_', '').replace('fp1_', '').replace('language_', '')
      string = string.replace('_1', '').replace('_2', '').replace('doctrine_', '')
      string = string.replace('special_', '').replace('is_', '')
      string = string.replace('_',' ')
      string = string.lower().capitalize()
      return string
  \<close>
\<close>

definition gameStringToRead :: "string \<Rightarrow> string" where
  "gameStringToRead string0 =
    (let string1 = replace ''_perk'' [] (replace ''_lifestyle'' [] (replace ''dynn_'' [] string0));
         string2 = replace ''ethos_'' [] (replace ''death_'' [] (replace ''nick_'' [] string1));
         string3 = replace ''tradition_'' [] (replace ''martial_custom_'' [] (replace ''heritage_'' [] string2));
         string4 = replace ''language_'' [] (replace ''fp1_'' [] (replace ''fp2_'' [] string3));
         string5 = replace ''doctrine_'' [] (replace ''_2'' [] (replace ''_1'' [] string4));
         string6 = replace ''is_'' [] (replace ''special_'' [] string5);
         string7 = replace ''_'' '' '' string6
     in capitalize (lower string7))"

text \<open>
  The normalizer as the specification words it: a fixed, ordered list of markers, each
  removed once, front to back; then underscores become spaces; then lower-casing and
  capitalization.
\<close>

definition strip_markers :: "string list" where
  "strip_markers =
    [''dynn_'', ''_lifestyle'', ''_perk'', ''nick_'', ''death_'', ''ethos_'', ''heritage_'',
     ''martial_custom_'', ''tradition_'', ''fp2_'', ''fp1_'', ''language_'', ''_1'', ''_2'',
     ''doctrine_'', ''special_'', ''is_'']"

definition to_display :: "string \<Rightarrow> string" where
  "to_display token =
     capitalize (lower (replace ''_'' '' '' (foldl (\<lambda>s marker. replace marker [] s) token strip_markers)))"

section \<open>Splitting, slicing, indexing, counting\<close>

text \<open>
  \<open>find_first pat s\<close> cuts \<open>s\<close> at the first occurrence of \<open>pat\<close>: the text before it and
  the text after it.
\<close>

fun find_first :: "string \<Rightarrow> string \<Rightarrow> (string \<times> string) option" where
  "find_first pat [] = (if pat = [] then Some ([], []) else None)"
| "find_first pat (c # cs) =
     (if starts_with pat (c # cs) then Some ([], drop (length pat) (c # cs))
      else (case find_first pat cs of
              None \<Rightarrow> None
            | Some (before, after) \<Rightarrow> Some (c # before, after)))"

text \<open>\<^verbatim>\<open>s.split(sep)\<close> for a one-character separator (the source only splits on
  \<^verbatim>\<open>' '\<close>, \<^verbatim>\<open>'\n'\<close> and \<^verbatim>\<open>'='\<close>): empty pieces are kept.\<close>

fun py_split :: "char \<Rightarrow> string \<Rightarrow> string list" where
  "py_split sep [] = [[]]"
| "py_split sep (c # cs) =
     (if c = sep then [] # py_split sep cs
      else (case py_split sep cs of
              [] \<Rightarrow> [[c]]
            | w # ws \<Rightarrow> (c # w) # ws))"

text \<open>\<^verbatim>\<open>s.split(sep, 1)\<close>: at most one cut.\<close>

definition py_split1 :: "char \<Rightarrow> string \<Rightarrow> string list" where
  "py_split1 sep s = (case find_first [sep] s of None \<Rightarrow> [s] | Some (before, after) \<Rightarrow> [before, after])"

text \<open>\<^verbatim>\<open>xs[1:-1]\<close> and \<^verbatim>\<open>xs[1:]\<close>; both are total in Python, and empty on short lists.\<close>

definition slice_1_m1 :: "'a list \<Rightarrow> 'a list" where
  "slice_1_m1 xs = butlast (tl xs)"

definition slice_1 :: "'a list \<Rightarrow> 'a list" where
  "slice_1 xs = tl xs"

text \<open>\<^verbatim>\<open>xs[0]\<close> raises \<^verbatim>\<open>IndexError\<close> on the empty list.\<close>

definition item0 :: "'a list \<Rightarrow> py_error + 'a" where
  "item0 xs = (case xs of [] \<Rightarrow> Inl IndexError | x # _ \<Rightarrow> Inr x)"

text \<open>\<^verbatim>\<open>s.count(sub)\<close>: non-overlapping occurrences (of a non-empty \<open>sub\<close>).\<close>

fun py_count :: "string \<Rightarrow> string \<Rightarrow> nat" where
  "py_count sub [] = 0"
| "py_count sub (c # cs) =
     (if sub \<noteq> [] \<and> starts_with sub (c # cs) then Suc (py_count sub (drop (length sub - 1) cs))
      else py_count sub cs)"

definition tab :: string where
  "tab = [CHR 0x09]"

section \<open>The regular expressions of the extractor\<close>

text \<open>
  Every pattern the source hands to \<^verbatim>\<open>re.findall(..., re.S)\<close> is a literal \<open>A\<close>, a lazy
  wildcard (\<^verbatim>\<open>.*?\<close> or \<^verbatim>\<open>.+?\<close>, matching any character including newlines) and a
  literal \<open>B\<close>.  Identifiers spliced into a pattern with \<^verbatim>\<open>%s\<close> are taken as literal text
  (they are digit strings in a save file).  The scan goes left to right: at the first
  place where \<open>A\<close> starts and a \<open>B\<close> follows at least \<open>k\<close> characters after it, the match
  ends with the nearest such \<open>B\<close> and the scan resumes behind it.  Each match is returned
  as the pair of its whole text and the text taken by the wildcard.  \<open>A\<close> is never empty
  in the source; an empty \<open>A\<close> yields no match here.
\<close>

lemma find_first_length: "find_first pat s = Some (before, after) \<Longrightarrow> length after \<le> length s"
proof (induction s arbitrary: before)
  case Nil
  then show ?case by (simp split: if_splits)
next
  case (Cons c cs)
  then show ?case by (auto split: if_splits option.splits)
qed

function re_lazy :: "string \<Rightarrow> nat \<Rightarrow> string \<Rightarrow> string \<Rightarrow> (string \<times> string) list" where
  "re_lazy A k B [] = []"
| "re_lazy A k B (c # cs) =
     (if A \<noteq> [] \<and> starts_with A (c # cs) then
        (case find_first B (drop k (drop (length A - 1) cs)) of
           None \<Rightarrow> re_lazy A k B cs
         | Some (mid, after) \<Rightarrow>
             (A @ take k (drop (length A - 1) cs) @ mid @ B, take k (drop (length A - 1) cs) @ mid)
               # re_lazy A k B after)
      else re_lazy A k B cs)"
  by pat_completeness auto
termination
proof (relation "measure (\<lambda>(A, k, B, s). length s)")
  show "wf (measure (\<lambda>(A, k, B, s). length s))" by simp
next
  fix A :: string and k :: nat and B :: string and c :: char and cs :: string
  show "((A, k, B, cs), (A, k, B, c # cs)) \<in> measure (\<lambda>(A, k, B, s). length s)" by simp
next
  fix A :: string and k :: nat and B :: string and c :: char and cs :: string
    and x2 :: "string \<times> string" and mid after :: string
  assume "find_first B (drop k (drop (length A - 1) cs)) = Some x2" and "(mid, after) = x2"
  then have "length after \<le> length (drop k (drop (length A - 1) cs))"
    using find_first_length by metis
  then show "((A, k, B, after), (A, k, B, c # cs)) \<in> measure (\<lambda>(A, k, B, s). length s)" by simp
next
  fix A :: string and k :: nat and B :: string and c :: char and cs :: string
  show "((A, k, B, cs), (A, k, B, c # cs)) \<in> measure (\<lambda>(A, k, B, s). length s)" by simp
qed

text \<open>\<^verbatim>\<open>re.findall(r'A(.*?)B', s, re.S)\<close>: the groups.\<close>

definition findall_group :: "string \<Rightarrow> string \<Rightarrow> string \<Rightarrow> string list" where
  "findall_group A B s = map snd (re_lazy A 0 B s)"

text \<open>\<^verbatim>\<open>re.findall(r'A(.+?)B', s, re.S)\<close>: the groups.\<close>

definition findall_group1 :: "string \<Rightarrow> string \<Rightarrow> string \<Rightarrow> string list" where
  "findall_group1 A B s = map snd (re_lazy A 1 B s)"

text \<open>\<^verbatim>\<open>re.findall(r'A.+?B', s, re.S)\<close>: no group, so the whole matches.\<close>

definition findall_whole1 :: "string \<Rightarrow> string \<Rightarrow> string \<Rightarrow> string list" where
  "findall_whole1 A B s = map fst (re_lazy A 1 B s)"

section \<open>The trait lookup\<close>

text \<open>
  \<^verbatim>\<open>linecache.getline(filename, lineno)\<close> returns line \<open>lineno\<close> (counted from 1, with its
  line terminator) and the empty string for any line number out of range or an unreadable
  file; it never raises.  The lookup file \<^verbatim>\<open>trait_indexes.lookup\<close> is generated outside
  the extractor, so its lines are a parameter.
\<close>

definition getline :: "string list \<Rightarrow> int \<Rightarrow> string" where
  "getline lines lineno =
     (if 1 \<le> lineno \<and> lineno \<le> int (length lines) then lines ! nat (lineno - 1) else [])"

text \<open>
  \<^verbatim>\<open>
  def getTrait(traitId:str) -> str:
      line = linecache.getline('trait_indexes.lookup', traitId + 1)
      return gameStringToRead(line)
  \<close>
\<close>

definition getTrait :: "string list \<Rightarrow> int \<Rightarrow> string" where
  "getTrait lookup traitId = gameStringToRead (getline lookup (traitId + 1))"

text \<open>
  \<^verbatim>\<open>int(s)\<close> on a string of ASCII characters: blanks around the number are dropped, a sign
  may lead, and the digits may be grouped by single underscores; anything else raises
  \<^verbatim>\<open>ValueError\<close>.  (Python also reads the decimal digits of other scripts; on strings
  with non-ASCII characters the function is left unspecified.)
\<close>

definition is_digit :: "char \<Rightarrow> bool" where
  "is_digit c = (48 \<le> (of_char c :: nat) \<and> (of_char c :: nat) \<le> 57)"

definition is_space :: "char \<Rightarrow> bool" where
  "is_space c = (let n = (of_char c :: nat) in (9 \<le> n \<and> n \<le> 13) \<or> (28 \<le> n \<and> n \<le> 32))"

definition strip :: "string \<Rightarrow> string" where
  "strip s = rev (dropWhile is_space (rev (dropWhile is_space s)))"

definition digits_value :: "string \<Rightarrow> int" where
  "digits_value ds = foldl (\<lambda>acc c. 10 * acc + (int (of_char c) - 48)) 0 ds"

text \<open>Digits, with single underscores between digits only.\<close>

fun grouped_digits :: "string \<Rightarrow> bool" where
  "grouped_digits [] = False"
| "grouped_digits [c] = is_digit c"
| "grouped_digits (c # d # ds) =
     (is_digit c \<and> (if d = CHR ''_'' then grouped_digits ds else grouped_digits (d # ds)))"

definition py_int :: "string \<Rightarrow> py_error + int" where
  "py_int s =
     (if \<not> is_ascii s then undefined s
      else case strip s of
        [] \<Rightarrow> Inl ValueError
      | c # cs \<Rightarrow>
          if c = CHR ''-'' \<or> c = CHR ''+'' then
            (if grouped_digits cs
             then Inr (if c = CHR ''-'' then - digits_value (filter is_digit cs)
                       else digits_value (filter is_digit cs))
             else Inl ValueError)
          else if grouped_digits (c # cs) then Inr (digits_value (filter is_digit (c # cs)))
          else Inl ValueError)"

text \<open>
  The loop of \<^verbatim>\<open>gChar.__init__\<close> over a trait list:
  \<^verbatim>\<open>
  for trait in findTraits:
      traits.append(getTrait(int(trait)))
  \<close>
\<close>

fun trait_names :: "string list \<Rightarrow> string list \<Rightarrow> py_error + string list" where
  "trait_names lookup [] = Inr []"
| "trait_names lookup (trait # rest) =
     (case py_int trait of
        Inl e \<Rightarrow> Inl e
      | Inr i \<Rightarrow> (case trait_names lookup rest of
                   Inl e \<Rightarrow> Inl e
                 | Inr names \<Rightarrow> Inr (getTrait lookup i # names)))"

section \<open>Bracketed list fields\<close>

text \<open>
  The idiom \<^verbatim>\<open>re.findall(r'field={(.*?)}', rawData, re.S)[0].split(' ')[1:-1]\<close> of
  \<^verbatim>\<open>gCulture.__init__\<close> (traditions, parents), \<^verbatim>\<open>gChar.__init__\<close> (traits, recessive
  traits, former spouses, children, domain, kills, vassal contracts, memories) and
  \<^verbatim>\<open>gDynn.__init__\<close> (historical leaders), and the one field the source splits without
  the slice:
  \<^verbatim>\<open>
  findSkills = re.findall(r'skill={(.*?)}', rawData, re.S)
  self.skills = findSkills[0].split(' ')
  \<close>
\<close>

definition list_tokens :: "string \<Rightarrow> string list" where
  "list_tokens inner = slice_1_m1 (py_split CHR '' '' inner)"

definition list_field :: "string \<Rightarrow> string \<Rightarrow> py_error + string list" where
  "list_field field rawData =
     (case item0 (findall_group (field @ ''={'') ''}'' rawData) of
        Inl e \<Rightarrow> Inl e
      | Inr inner \<Rightarrow> Inr (list_tokens inner))"

definition skills_field :: "string \<Rightarrow> py_error + string list" where
  "skills_field rawData =
     (case item0 (findall_group ''skill={'' ''}'' rawData) of
        Inl e \<Rightarrow> Inl e
      | Inr inner \<Rightarrow> Inr (py_split CHR '' '' inner))"

section \<open>Block locators\<close>

text \<open>
  \<^verbatim>\<open>
  def findCharData(charid:str, data:str) -> str:
      charData = re.findall(r'\n%s={\n\tfirst_name=.+?\n}' % charid, data, re.S)
      return charData[0]

  def findTitleData(titleid:str, data:str) -> str:
      titleData = re.findall(r'\n%s={.+?\n}' % titleid, data, re.S)
      return titleData[0]

  def findMemData(memid:str, data:str) -> str:
      memData = re.findall(r'\t\t%s={\n\t\t\ttype=.+?\n\t\t}' % memid, data, re.S)
      return memData[0]

  def findVassal(conId:str, data:str) -> str:
      conData = re.findall(r'\n\t\t%s={.+?\n\t\t}' % conId, data, re.S)[0]
      vassalId = re.findall(r'vassal=(.+?)\n', conData, re.S)[0]
      return vassalId
  \<close>
\<close>

definition char_hits :: "string \<Rightarrow> string \<Rightarrow> string list" where
  "char_hits charid data =
     findall_whole1 (''\<newline>'' @ charid @ ''={\<newline>'' @ tab @ ''first_name='') ''\<newline>}'' data"

definition findCharData :: "string \<Rightarrow> string \<Rightarrow> py_error + string" where
  "findCharData charid data = item0 (char_hits charid data)"

definition findTitleData :: "string \<Rightarrow> string \<Rightarrow> py_error + string" where
  "findTitleData titleid data = item0 (findall_whole1 (''\<newline>'' @ titleid @ ''={'') ''\<newline>}'' data)"

definition findMemData :: "string \<Rightarrow> string \<Rightarrow> py_error + string" where
  "findMemData memid data =
     item0 (findall_whole1 (tab @ tab @ memid @ ''={\<newline>'' @ tab @ tab @ tab @ ''type='')
              (''\<newline>'' @ tab @ tab @ ''}'') data)"

definition findVassal :: "string \<Rightarrow> string \<Rightarrow> py_error + string" where
  "findVassal conId data =
     (case item0 (findall_whole1 (''\<newline>'' @ tab @ tab @ conId @ ''={'')
                    (''\<newline>'' @ tab @ tab @ ''}'') data) of
        Inl e \<Rightarrow> Inl e
      | Inr conData \<Rightarrow> item0 (findall_group1 ''vassal='' ''\<newline>'' conData))"

text \<open>
  \<^verbatim>\<open>
  def findHouseData(dynid:str, data:str) -> str:
      i = 0
      houseData = re.findall(r'\n%s={\n\t.+?\n}' % dynid, data, re.S)
      while 'dynasty=' not in houseData[i]:
          i = i + 1
      return houseData[i]

  def findDynastyData(dynid:str, data:str) -> str:
      i = 0
      dynData = re.findall(r'\n%s={\n\t.+?\n}' % dynid, data, re.S)
      while 'prestige=' not in dynData[i]:
          i = i + 1
      return dynData[i]
  \<close>
  The two loops differ in the anchor only; \<open>hits ! i\<close> beyond the end of the list is the
  \<^verbatim>\<open>IndexError\<close> of \<^verbatim>\<open>houseData[i]\<close>.
\<close>

function anchor_loop :: "string \<Rightarrow> string list \<Rightarrow> nat \<Rightarrow> py_error + string" where
  "anchor_loop anchor hits i =
     (if length hits \<le> i then Inl IndexError
      else if \<not> contains anchor (hits ! i) then anchor_loop anchor hits (i + 1)
      else Inr (hits ! i))"
  by pat_completeness auto
termination
  by (relation "measure (\<lambda>(anchor, hits, i). length hits - i)") auto

declare anchor_loop.simps [simp del]

definition block_hits :: "string \<Rightarrow> string \<Rightarrow> string list" where
  "block_hits dynid data = findall_whole1 (''\<newline>'' @ dynid @ ''={\<newline>'' @ tab) ''\<newline>}'' data"

definition findHouseData :: "string \<Rightarrow> string \<Rightarrow> py_error + string" where
  "findHouseData dynid data = anchor_loop ''dynasty='' (block_hits dynid data) 0"

definition findDynastyData :: "string \<Rightarrow> string \<Rightarrow> py_error + string" where
  "findDynastyData dynid data = anchor_loop ''prestige='' (block_hits dynid data) 0"

section \<open>Title names\<close>

text \<open>
  \<^verbatim>\<open>
  def getTitleName(titleid:str, allData:str) -> str:
      rawData = findTitleData(titleid, allData)
      findKey = re.findall(r'key="(.*?)"', rawData, re.S)
      findName = re.findall(r'name="(.*?)"', rawData, re.S)
      baseName = findName[0]
      if 'article' in rawData:
          findArt = re.findall(r'article="(.*?)"', rawData, re.S)
          return findArt[0] + baseName
      elif 'b_' in findKey[0]:
          return 'Barony of ' + baseName
      elif 'c_' in findKey[0]:
          return 'County of ' + baseName
      elif 'd_' in findKey[0]:
          return 'Duchy of ' + baseName
      elif 'k_' in findKey[0]:
          return 'Kingdom of ' + baseName
      elif 'e_' in findKey[0]:
          return 'Empire of ' + baseName
      else:
          return baseName
  \<close>
\<close>

definition title_name_of_block :: "string \<Rightarrow> py_error + string" where
  \<open>title_name_of_block rawData =
     (let findKey = findall_group ''key="'' ''"'' rawData;
          findName = findall_group ''name="'' ''"'' rawData
      in case item0 findName of
           Inl e \<Rightarrow> Inl e
         | Inr baseName \<Rightarrow>
             if contains ''article'' rawData then
               (case item0 (findall_group ''article="'' ''"'' rawData) of
                  Inl e \<Rightarrow> Inl e
                | Inr art \<Rightarrow> Inr (art @ baseName))
             else
               (case item0 findKey of
                  Inl e \<Rightarrow> Inl e
                | Inr key \<Rightarrow>
                    if contains ''b_'' key then Inr (''Barony of '' @ baseName)
                    else if contains ''c_'' key then Inr (''County of '' @ baseName)
                    else if contains ''d_'' key then Inr (''Duchy of '' @ baseName)
                    else if contains ''k_'' key then Inr (''Kingdom of '' @ baseName)
                    else if contains ''e_'' key then Inr (''Empire of '' @ baseName)
                    else Inr baseName))\<close>

definition getTitleName :: "string \<Rightarrow> string \<Rightarrow> py_error + string" where
  "getTitleName titleid allData =
     (case findTitleData titleid allData of
        Inl e \<Rightarrow> Inl e
      | Inr rawData \<Rightarrow> title_name_of_block rawData)"

text \<open>A lookup table of two traits, and a title block whose key is a county key.\<close>

definition lookup2 :: "string list" where
  "lookup2 = [''brave\<newline>'', ''craven\<newline>'']"

definition title_doc :: string where
  \<open>title_doc =
     ''\<newline>7={\<newline>'' @ tab @ ''key="c_bab_al_abwab"\<newline>'' @ tab @ ''name="Derbent"\<newline>}\<newline>''\<close>

section \<open>Objects, registries and the resolution monad\<close>

text \<open>
  A Python object is a class tag and its attributes, set one by one while \<^verbatim>\<open>__init__\<close>
  runs; an attribute that was never set is absent.  Objects live in a heap and are
  referred to by their address, so that two references are to the same object exactly
  when the addresses are equal.  The registries \<^verbatim>\<open>knownChars\<close>, \<^verbatim>\<open>knownDyns\<close>,
  \<^verbatim>\<open>knownCuls\<close>, \<^verbatim>\<open>knownFaiths\<close> and \<^verbatim>\<open>knownTitles\<close> are the module-level dictionaries
  of the source, from identifier to object (\<^verbatim>\<open>knownHouses\<close> is declared and never used).
\<close>

datatype pyval =
    Str string
  | Ref nat
  | Num int
  | Bool bool
  | List "pyval list"
  | Dict "(string \<times> pyval) list"

datatype cls = CChar | CTitle | CFaith | CCulture | CDynn | CMem | CLChar | CLineage

record state =
  heap :: "(cls \<times> (string \<times> pyval) list) list"
  knownChars :: "(string \<times> nat) list"
  knownDyns :: "(string \<times> nat) list"
  knownCuls :: "(string \<times> nat) list"
  knownFaiths :: "(string \<times> nat) list"
  knownTitles :: "(string \<times> nat) list"

definition empty_state :: state where
  "empty_state = \<lparr>heap = [], knownChars = [], knownDyns = [], knownCuls = [], knownFaiths = [],
     knownTitles = []\<rparr>"

text \<open>
  A computation takes the state and either never returns (\<open>None\<close>: the recursion does not
  end) or returns the new state with a value or a raised exception.  State changes made
  before an exception is raised stay, as in Python.
\<close>

type_synonym 'a run = "state \<Rightarrow> ((py_error + 'a) \<times> state) option"

definition ret :: "'a \<Rightarrow> 'a run" where
  "ret x = (\<lambda>s. Some (Inr x, s))"

definition raise :: "py_error \<Rightarrow> 'a run" where
  "raise e = (\<lambda>s. Some (Inl e, s))"

definition lift :: "py_error + 'a \<Rightarrow> 'a run" where
  "lift r = (\<lambda>s. Some (r, s))"

definition bnd :: "'a run \<Rightarrow> ('a \<Rightarrow> 'b run) \<Rightarrow> 'b run" where
  "bnd m f = (\<lambda>s. case m s of
                    None \<Rightarrow> None
                  | Some (Inl e, s') \<Rightarrow> Some (Inl e, s')
                  | Some (Inr x, s') \<Rightarrow> f x s')"

text \<open>\<^verbatim>\<open>try: m  except: h\<close> (a bare \<^verbatim>\<open>except\<close> catches every exception).\<close>

definition try_except :: "'a run \<Rightarrow> 'a run \<Rightarrow> 'a run" where
  "try_except m h = (\<lambda>s. case m s of
                           None \<Rightarrow> None
                         | Some (Inl e, s') \<Rightarrow> h s'
                         | Some (Inr x, s') \<Rightarrow> Some (Inr x, s'))"

text \<open>\<^verbatim>\<open>try: m  except IndexError: h\<close>\<close>

definition try_except_IndexError :: "'a run \<Rightarrow> 'a run \<Rightarrow> 'a run" where
  "try_except_IndexError m h = (\<lambda>s. case m s of
                           None \<Rightarrow> None
                         | Some (Inl e, s') \<Rightarrow> (if e = IndexError then h s' else Some (Inl e, s'))
                         | Some (Inr x, s') \<Rightarrow> Some (Inr x, s'))"

text \<open>\<^verbatim>\<open>for x in xs: f(x)\<close>; an exception leaves the loop.\<close>

fun for_each :: "'a list \<Rightarrow> ('a \<Rightarrow> unit run) \<Rightarrow> unit run" where
  "for_each [] f = ret ()"
| "for_each (x # xs) f = bnd (f x) (\<lambda>_. for_each xs f)"

text \<open>\<^verbatim>\<open>d[key] = v\<close> on a dictionary: an existing key keeps its place, a new key goes last.\<close>

fun dict_set :: "(string \<times> 'v) list \<Rightarrow> string \<Rightarrow> 'v \<Rightarrow> (string \<times> 'v) list" where
  "dict_set [] key v = [(key, v)]"
| "dict_set ((k, w) # d) key v = (if k = key then (k, v) # d else (k, w) # dict_set d key v)"

text \<open>Object creation, \<^verbatim>\<open>self.k = v\<close>, \<^verbatim>\<open>obj.k\<close>, \<^verbatim>\<open>self.k.append(v)\<close>, \<^verbatim>\<open>self.k[key] = v\<close>.\<close>

definition alloc :: "cls \<Rightarrow> nat run" where
  "alloc c = (\<lambda>s. Some (Inr (length (heap s)), s\<lparr>heap := heap s @ [(c, [])]\<rparr>))"

definition attr_of :: "state \<Rightarrow> nat \<Rightarrow> string \<Rightarrow> pyval option" where
  "attr_of s a k = (if a < length (heap s) then map_of (snd (heap s ! a)) k else None)"

definition setattr :: "nat \<Rightarrow> string \<Rightarrow> pyval \<Rightarrow> unit run" where
  "setattr a k v =
     (\<lambda>s. Some (Inr (), s\<lparr>heap := (heap s)[a := (fst (heap s ! a), dict_set (snd (heap s ! a)) k v)]\<rparr>))"

definition getattr :: "nat \<Rightarrow> string \<Rightarrow> pyval run" where
  "getattr a k = (\<lambda>s. case attr_of s a k of None \<Rightarrow> Some (Inl AttributeError, s) | Some v \<Rightarrow> Some (Inr v, s))"

definition append_attr :: "nat \<Rightarrow> string \<Rightarrow> pyval \<Rightarrow> unit run" where
  "append_attr a k v =
     (\<lambda>s. case attr_of s a k of
             Some (List xs) \<Rightarrow> setattr a k (List (xs @ [v])) s
           | _ \<Rightarrow> Some (Inl AttributeError, s))"

definition setitem_attr :: "nat \<Rightarrow> string \<Rightarrow> string \<Rightarrow> pyval \<Rightarrow> unit run" where
  "setitem_attr a k key v =
     (\<lambda>s. case attr_of s a k of
             Some (Dict d) \<Rightarrow> setattr a k (Dict (dict_set d key v)) s
           | _ \<Rightarrow> Some (Inl AttributeError, s))"

text \<open>\<^verbatim>\<open>knownChars[charid] = self\<close> and its siblings.\<close>

definition register_char :: "string \<Rightarrow> nat \<Rightarrow> unit run" where
  "register_char k a = (\<lambda>s. Some (Inr (), s\<lparr>knownChars := dict_set (knownChars s) k a\<rparr>))"

definition register_dyn :: "string \<Rightarrow> nat \<Rightarrow> unit run" where
  "register_dyn k a = (\<lambda>s. Some (Inr (), s\<lparr>knownDyns := dict_set (knownDyns s) k a\<rparr>))"

definition register_cul :: "string \<Rightarrow> nat \<Rightarrow> unit run" where
  "register_cul k a = (\<lambda>s. Some (Inr (), s\<lparr>knownCuls := dict_set (knownCuls s) k a\<rparr>))"

definition register_faith :: "string \<Rightarrow> nat \<Rightarrow> unit run" where
  "register_faith k a = (\<lambda>s. Some (Inr (), s\<lparr>knownFaiths := dict_set (knownFaiths s) k a\<rparr>))"

definition register_title :: "string \<Rightarrow> nat \<Rightarrow> unit run" where
  "register_title k a = (\<lambda>s. Some (Inr (), s\<lparr>knownTitles := dict_set (knownTitles s) k a\<rparr>))"

text \<open>
  A request to construct an entity: \<^verbatim>\<open>gChar(charid, allData, env, path, limit)\<close>,
  \<^verbatim>\<open>gCulture(culid, ...)\<close>, \<^verbatim>\<open>gFaith(faid, ...)\<close>,
  \<^verbatim>\<open>gTitle(titleid, ..., lookUp, lookDown)\<close> and \<^verbatim>\<open>gDynn(dynid, ..., house)\<close>.  The
  constructors call each other; each takes the resolver for nested requests as its
  parameter \<open>rec\<close>, which returns the address of the object built.  Rendering (the
  \<^verbatim>\<open>env\<close> and \<^verbatim>\<open>path\<close> arguments) is outside the model: it is the source's
  \<^verbatim>\<open>env = False\<close> mode, which skips file creation.
\<close>

datatype req =
    NewChar string int
  | NewCulture string
  | NewFaith string
  | NewTitle string bool bool
  | NewDynn string bool

text \<open>\<^verbatim>\<open>xs[1]\<close>\<close>

definition item1 :: "'a list \<Rightarrow> py_error + 'a" where
  "item1 xs = (case xs of _ # y # _ \<Rightarrow> Inr y | _ \<Rightarrow> Inl IndexError)"

text \<open>
  The name-only form of a character, as the source computes it at each site:
  \<^verbatim>\<open>
  findName = re.findall(r'first_name="(.*?)"', charData, re.S)
  ... gameStringToRead(findName[0].replace('_',''))
  \<close>
\<close>

definition char_display_name :: "string \<Rightarrow> py_error + string" where
  \<open>char_display_name charData =
     (case item0 (findall_group ''first_name="'' ''"'' charData) of
        Inl e \<Rightarrow> Inl e
      | Inr n \<Rightarrow> Inr (gameStringToRead (replace ''_'' [] n)))\<close>

text \<open>
  \<^verbatim>\<open>
  def getChrNameOrObj(charid:str, allData:str):
      global knownChars
      if charid in knownChars.keys():
          res = knownChars[charid]
      else:
          charData = findCharData(charid, allData)
          findName = re.findall(r'first_name="(.*?)"', charData, re.S)
          res = gameStringToRead(findName[0].replace('_',''))
      return res
  \<close>
\<close>

definition getChrNameOrObj :: "string \<Rightarrow> string \<Rightarrow> pyval run" where
  "getChrNameOrObj charid allData =
     (\<lambda>s. case map_of (knownChars s) charid of
             Some a \<Rightarrow> ret (Ref a) s
           | None \<Rightarrow>
               bnd (lift (findCharData charid allData)) (\<lambda>charData.
               bnd (lift (char_display_name charData)) (\<lambda>name.
               ret (Str name))) s)"

section \<open>Memories\<close>

text \<open>
  \<^verbatim>\<open>
  class gMem:
      def __init__(self, memid:str, allData:str) -> None:
          self.memId = memid
          data = findMemData(memid, allData)
          findType = re.findall(r'type="(.*?)"', data, re.S)[0]
          self.type = gameStringToRead(findType)
          try:
              findDate = re.findall(r'creation_date=(.*?)\n', data, re.S)
              self.date = findDate[0]
          except IndexError:
              self.date = ''
          if 'participants' in data:
              self.participants = {}
              findParticipants = re.findall(r'participants={(.*?)\n\t\t\t}', data, re.S)[0].replace('\t','')
              lines = findParticipants.split('\n')[1:]
              for line in lines:
                  fields = line.split('=')
                  if fields[1] in knownChars.keys():
                      self.participants[gameStringToRead(fields[0])] = knownChars[fields[1]]
                  else:
                      charData = findCharData(fields[1], allData)
                      findName = re.findall(r'first_name="(.*?)"', charData, re.S)
                      self.participants[gameStringToRead(fields[0])] = gameStringToRead(findName[0].replace('_', ''))
  \<close>
\<close>

definition mem_participant :: "nat \<Rightarrow> string \<Rightarrow> string \<Rightarrow> unit run" where
  "mem_participant self allData line =
     (let fields = py_split CHR ''='' line in
      bnd (lift (item1 fields)) (\<lambda>f1.
      (\<lambda>s. case map_of (knownChars s) f1 of
              Some a \<Rightarrow>
                bnd (lift (item0 fields)) (\<lambda>f0.
                setitem_attr self ''participants'' (gameStringToRead f0) (Ref a)) s
            | None \<Rightarrow>
                bnd (lift (findCharData f1 allData)) (\<lambda>charData.
                bnd (lift (char_display_name charData)) (\<lambda>name.
                bnd (lift (item0 fields)) (\<lambda>f0.
                setitem_attr self ''participants'' (gameStringToRead f0) (Str name)))) s)))"

definition gMem :: "string \<Rightarrow> string \<Rightarrow> nat run" where
  \<open>gMem memid allData =
     bnd (alloc CMem) (\<lambda>self.
     bnd (setattr self ''memId'' (Str memid)) (\<lambda>_.
     bnd (lift (findMemData memid allData)) (\<lambda>data.
     bnd (lift (item0 (findall_group ''type="'' ''"'' data))) (\<lambda>findType.
     bnd (setattr self ''type'' (Str (gameStringToRead findType))) (\<lambda>_.
     bnd (try_except_IndexError
            (bnd (lift (item0 (findall_group ''creation_date='' ''\<newline>'' data))) (\<lambda>d.
             setattr self ''date'' (Str d)))
            (setattr self ''date'' (Str []))) (\<lambda>_.
     bnd (if contains ''participants'' data then
            bnd (setattr self ''participants'' (Dict [])) (\<lambda>_.
            bnd (lift (item0 (findall_group ''participants={'' (''\<newline>'' @ tab @ tab @ tab @ ''}'') data)))
              (\<lambda>findParticipants.
            for_each (slice_1 (py_split CHR ''\<newline>'' (replace tab [] findParticipants)))
              (mem_participant self allData)))
          else ret ()) (\<lambda>_.
     ret self)))))))\<close>

section \<open>Titles\<close>

text \<open>
  \<^verbatim>\<open>
  class gTitle:
      def __init__(self, titleid:str, allData:str, env:Environment, path:str, lookUp:bool = True, lookDown:int = True) -> None:
          global knownTitles
          self.titleid = titleid
          rawData = findTitleData(titleid, allData)
          findKey = re.findall(r'key="(.*?)"', rawData, re.S)
          self.key = findKey[0]
          self.name = getTitleName(titleid, allData)
          knownTitles[titleid] = self
          if 'b_' not in self.key:
              if 'history=' in rawData:
                  findHistory = re.findall(r'history={ (.*?) }', rawData, re.S)[0]
                  historyData = findHistory.split(' ')
                  self.history = {}
                  for element in historyData:
                      fields = element.split('=', 1)
                      if '{' not in fields[1]:
                          fields[1] = getChrNameOrObj(fields[1], allData)
                          self.history[fields[0]] = [fields[1], 'gained']
                      else:
                          type = re.findall(r'type=(.*?)\n', fields[1], re.S)[0]
                          if type == 'destroyed':
                              holder = ''
                          else:
                              holder = re.findall(r'holder=(.*?)\n', fields[1], re.S)[0]
                              holder = getChrNameOrObj(holder, allData)
                          self.history[fields[0]] = [holder, gameStringToRead(type)]
              lookDownToggle = False
              if 'de_jure_liege' in rawData:
                  findJure = re.findall(r'de_jure_liege=(.*?)\n', rawData, re.S)[0]
                  if findJure in knownTitles.keys():
                      findJure = knownTitles[findJure]
                  else:
                      if lookUp:
                          findJure = gTitle(findJure, allData, env, path, lookUp=True, lookDown=lookDownToggle)
                      else:
                          findJure = getTitleName(findJure, allData)
                  self.de_jure = findJure
              if 'de_facto_liege' in rawData:
                  (the same with de_facto_liege, findFacto and self.de_facto)
              if 'de_jure_vassals=' in rawData:
                  findVassals = re.findall(r'de_jure_vassals={ (.*?) }', rawData, re.S)[0]
                  vassals = findVassals.split(' ')
                  self.vassals = []
                  for vassal in vassals:
                      if vassal in knownTitles.keys():
                          vassal = knownTitles[vassal]
                      else:
                          if lookDown:
                              vassal = gTitle(vassal, allData, env, path, lookUp=False)
                          else:
                              vassal = getTitleName(vassal, allData)
                      self.vassals.append(vassal)
          knownTitles[titleid] = self
  \<close>
\<close>

definition title_history_entry :: "nat \<Rightarrow> string \<Rightarrow> string \<Rightarrow> unit run" where
  "title_history_entry self allData element =
     (let fields = py_split1 CHR ''='' element in
      bnd (lift (item1 fields)) (\<lambda>f1.
      if \<not> contains ''{'' f1 then
        bnd (getChrNameOrObj f1 allData) (\<lambda>holder.
        bnd (lift (item0 fields)) (\<lambda>f0.
        setitem_attr self ''history'' f0 (List [holder, Str ''gained''])))
      else
        bnd (lift (item0 (findall_group ''type='' ''\<newline>'' f1))) (\<lambda>type.
        bnd (if type = ''destroyed'' then ret (Str [])
             else bnd (lift (item0 (findall_group ''holder='' ''\<newline>'' f1))) (\<lambda>holder.
                  getChrNameOrObj holder allData)) (\<lambda>holder.
        bnd (lift (item0 fields)) (\<lambda>f0.
        setitem_attr self ''history'' f0 (List [holder, Str (gameStringToRead type)]))))))"

definition title_liege :: "(req \<Rightarrow> nat run) \<Rightarrow> string \<Rightarrow> bool \<Rightarrow> string \<Rightarrow> pyval run" where
  "title_liege rec allData lookUp liege =
     (\<lambda>s. case map_of (knownTitles s) liege of
             Some a \<Rightarrow> ret (Ref a) s
           | None \<Rightarrow>
               (if lookUp then bnd (rec (NewTitle liege True False)) (\<lambda>a. ret (Ref a))
                else bnd (lift (getTitleName liege allData)) (\<lambda>name. ret (Str name))) s)"

definition title_vassal :: "(req \<Rightarrow> nat run) \<Rightarrow> string \<Rightarrow> bool \<Rightarrow> string \<Rightarrow> pyval run" where
  "title_vassal rec allData lookDown vassal =
     (\<lambda>s. case map_of (knownTitles s) vassal of
             Some a \<Rightarrow> ret (Ref a) s
           | None \<Rightarrow>
               (if lookDown then bnd (rec (NewTitle vassal False True)) (\<lambda>a. ret (Ref a))
                else bnd (lift (getTitleName vassal allData)) (\<lambda>name. ret (Str name))) s)"

definition gTitle_relations ::
  "(req \<Rightarrow> nat run) \<Rightarrow> nat \<Rightarrow> string \<Rightarrow> string \<Rightarrow> bool \<Rightarrow> bool \<Rightarrow> unit run" where
  "gTitle_relations rec self rawData allData lookUp lookDown =
     bnd (if contains ''history='' rawData then
            bnd (lift (item0 (findall_group ''history={ '' '' }'' rawData))) (\<lambda>findHistory.
            bnd (setattr self ''history'' (Dict [])) (\<lambda>_.
            for_each (py_split CHR '' '' findHistory) (title_history_entry self allData)))
          else ret ()) (\<lambda>_.
     bnd (if contains ''de_jure_liege'' rawData then
            bnd (lift (item0 (findall_group ''de_jure_liege='' ''\<newline>'' rawData))) (\<lambda>findJure.
            bnd (title_liege rec allData lookUp findJure) (\<lambda>liege.
            setattr self ''de_jure'' liege))
          else ret ()) (\<lambda>_.
     bnd (if contains ''de_facto_liege'' rawData then
            bnd (lift (item0 (findall_group ''de_facto_liege='' ''\<newline>'' rawData))) (\<lambda>findFacto.
            bnd (title_liege rec allData lookUp findFacto) (\<lambda>liege.
            setattr self ''de_facto'' liege))
          else ret ()) (\<lambda>_.
     if contains ''de_jure_vassals='' rawData then
       bnd (lift (item0 (findall_group ''de_jure_vassals={ '' '' }'' rawData))) (\<lambda>findVassals.
       bnd (setattr self ''vassals'' (List [])) (\<lambda>_.
       for_each (py_split CHR '' '' findVassals) (\<lambda>vassal.
         bnd (title_vassal rec allData lookDown vassal) (\<lambda>v.
         append_attr self ''vassals'' v))))
     else ret ())))"

definition gTitle :: "(req \<Rightarrow> nat run) \<Rightarrow> string \<Rightarrow> string \<Rightarrow> bool \<Rightarrow> bool \<Rightarrow> nat run" where
  \<open>gTitle rec titleid allData lookUp lookDown =
     bnd (alloc CTitle) (\<lambda>self.
     bnd (setattr self ''titleid'' (Str titleid)) (\<lambda>_.
     bnd (lift (findTitleData titleid allData)) (\<lambda>rawData.
     bnd (lift (item0 (findall_group ''key="'' ''"'' rawData))) (\<lambda>key.
     bnd (setattr self ''key'' (Str key)) (\<lambda>_.
     bnd (lift (getTitleName titleid allData)) (\<lambda>name.
     bnd (setattr self ''name'' (Str name)) (\<lambda>_.
     bnd (register_title titleid self) (\<lambda>_.
     bnd (if \<not> contains ''b_'' key
          then gTitle_relations rec self rawData allData lookUp lookDown
          else ret ()) (\<lambda>_.
     bnd (register_title titleid self) (\<lambda>_.
     ret self))))))))))\<close>

section \<open>Faiths\<close>

text \<open>
  \<^verbatim>\<open>
  class gFaith:
      def __init__(self, faid:str, allData:str, env:Environment, path:str) -> None:
          global knownTitles
          self.faid = faid
          faiData = re.findall(r'\n\tfaiths={(.*?)\n}', allData, re.S)[0]
          rawData = re.findall(r'\n\t\t%s={(.*?)\n\t\t}' % faid, faiData, re.S)[0]
          findName = re.findall(r'name="(.*?)"', rawData, re.S)
          if len(findName) > 0:
              self.name = findName[0].capitalize()
          else:
              findTag = re.findall(r'tag="(.*?)"', rawData, re.S)
              self.name = gameStringToRead(findTag[0]).capitalize()
          findFervor = re.findall(r'fervor=(.*?)\n', rawData, re.S)
          self.fervor = findFervor[0]
          findTenets = re.findall(r'doctrine="tenet_(.*?)"', rawData, re.S)
          self.tenets = []
          for tenet in findTenets:
              self.tenets.append(gameStringToRead(tenet))
          findDoctrines = re.findall(r'doctrine="(.*?)"', rawData, re.S)
          basic = findDoctrines[3:21]
          others = findDoctrines[21:len(findDoctrines)]
          doctrines = []
          for doctrine in basic + others:
              doctrines.append(gameStringToRead(doctrine))
          self.doctrines = doctrines
          findReligion = re.findall(r'religion=(.*?)\n', rawData, re.S)
          self.religion = findReligion[0]
          findHead =  re.findall(r'religious_head=(.*?)\n', rawData, re.S)
          if len(findHead) > 0:
              try:
                  if findHead[0] in knownTitles.keys():
                      self.head = knownTitles[findHead[0]]
                  else:
                      self.head = gTitle(findHead[0], allData, env, path)
              except IndexError:
                  pass
          knownFaiths[faid] = self
  \<close>
\<close>

definition faith_head :: "(req \<Rightarrow> nat run) \<Rightarrow> string \<Rightarrow> nat run" where
  "faith_head rec head =
     (\<lambda>s. case map_of (knownTitles s) head of
             Some a \<Rightarrow> ret a s
           | None \<Rightarrow> rec (NewTitle head True True) s)"

definition gFaith :: "(req \<Rightarrow> nat run) \<Rightarrow> string \<Rightarrow> string \<Rightarrow> nat run" where
  \<open>gFaith rec faid allData =
     bnd (alloc CFaith) (\<lambda>self.
     bnd (setattr self ''faid'' (Str faid)) (\<lambda>_.
     bnd (lift (item0 (findall_group (''\<newline>'' @ tab @ ''faiths={'') ''\<newline>}'' allData))) (\<lambda>faiData.
     bnd (lift (item0 (findall_group (''\<newline>'' @ tab @ tab @ faid @ ''={'')
                         (''\<newline>'' @ tab @ tab @ ''}'') faiData))) (\<lambda>rawData.
     bnd (case findall_group ''name="'' ''"'' rawData of
            n # _ \<Rightarrow> setattr self ''name'' (Str (capitalize n))
          | [] \<Rightarrow> bnd (lift (item0 (findall_group ''tag="'' ''"'' rawData))) (\<lambda>tag.
                  setattr self ''name'' (Str (capitalize (gameStringToRead tag))))) (\<lambda>_.
     bnd (lift (item0 (findall_group ''fervor='' ''\<newline>'' rawData))) (\<lambda>fervor.
     bnd (setattr self ''fervor'' (Str fervor)) (\<lambda>_.
     bnd (setattr self ''tenets''
            (List (map (\<lambda>tenet. Str (gameStringToRead tenet))
                     (findall_group ''doctrine="tenet_'' ''"'' rawData)))) (\<lambda>_.
     bnd (let findDoctrines = findall_group ''doctrine="'' ''"'' rawData;
              basic = take 18 (drop 3 findDoctrines);
              others = drop 21 findDoctrines
          in setattr self ''doctrines''
               (List (map (\<lambda>doctrine. Str (gameStringToRead doctrine)) (basic @ others)))) (\<lambda>_.
     bnd (lift (item0 (findall_group ''religion='' ''\<newline>'' rawData))) (\<lambda>religion.
     bnd (setattr self ''religion'' (Str religion)) (\<lambda>_.
     bnd (case findall_group ''religious_head='' ''\<newline>'' rawData of
            [] \<Rightarrow> ret ()
          | head # _ \<Rightarrow>
              try_except_IndexError
                (bnd (faith_head rec head) (\<lambda>a. setattr self ''head'' (Ref a)))
                (ret ())) (\<lambda>_.
     bnd (register_faith faid self) (\<lambda>_.
     ret self)))))))))))))\<close>

section \<open>Cultures\<close>

text \<open>
  \<^verbatim>\<open>
  class gCulture:
      def __init__(self, culid:str, allData:str, env:Environment, path:str) -> None:
          global knownCuls
          self.culid = culid
          culData = re.findall(r'\n\tcultures={(.*?)\n}', allData, re.S)[0]
          rawData = re.findall(r'\n\t\t%s={(.*?)\n\t\t}' % culid, culData, re.S)[0]
          findName = re.findall(r'name="(.*?)"', rawData, re.S)
          self.name = findName[0].replace('_','').capitalize()
          findDate = re.findall(r'created=(.*?)\n', rawData, re.S)
          if len(findDate) > 0:
              self.date = findDate[0]
          findEthos = re.findall(r'ethos="(.*?)"', rawData, re.S)
          self.ethos = gameStringToRead(findEthos[0]).capitalize()
          findHeritage = re.findall(r'heritage="(.*?)"', rawData, re.S)
          self.heritage = gameStringToRead(findHeritage[0]).capitalize()
          findLanguage = re.findall(r'language="(.*?)"', rawData, re.S)
          self.language = gameStringToRead(findLanguage[0]).capitalize()
          findParents = re.findall(r'parents={(.*?)}', rawData, re.S)
          self.parents = []
          if len(findParents) > 0:
              parents = findParents[0].split(' ')[1:-1]
              for parent in parents:
                  if parent in knownCuls.keys():
                      self.parents.append(knownCuls[parent])
                  else:
                      self.parents.append(gCulture(parent, allData, env, path))
          findTraditions = re.findall(r'traditions={(.*?)}', rawData, re.S)
          traditions = findTraditions[0].split(' ')[1:-1]
          self.traditions = []
          for tradition in traditions:
              self.traditions.append(gameStringToRead(tradition))
          findMartial = re.findall(r'martial_custom="(.*?)"', rawData, re.S)
          self.martial = gameStringToRead(findMartial[0])
          knownCuls[culid] = self
  \<close>
  The registry entry is written by the last statement, after the loop over the parents.
\<close>

definition culture_parent :: "(req \<Rightarrow> nat run) \<Rightarrow> string \<Rightarrow> nat run" where
  "culture_parent rec parent =
     (\<lambda>s. case map_of (knownCuls s) parent of
             Some a \<Rightarrow> ret a s
           | None \<Rightarrow> rec (NewCulture parent) s)"

definition gCulture :: "(req \<Rightarrow> nat run) \<Rightarrow> string \<Rightarrow> string \<Rightarrow> nat run" where
  \<open>gCulture rec culid allData =
     bnd (alloc CCulture) (\<lambda>self.
     bnd (setattr self ''culid'' (Str culid)) (\<lambda>_.
     bnd (lift (item0 (findall_group (''\<newline>'' @ tab @ ''cultures={'') ''\<newline>}'' allData))) (\<lambda>culData.
     bnd (lift (item0 (findall_group (''\<newline>'' @ tab @ tab @ culid @ ''={'')
                         (''\<newline>'' @ tab @ tab @ ''}'') culData))) (\<lambda>rawData.
     bnd (lift (item0 (findall_group ''name="'' ''"'' rawData))) (\<lambda>name.
     bnd (setattr self ''name'' (Str (capitalize (replace ''_'' [] name)))) (\<lambda>_.
     bnd (case findall_group ''created='' ''\<newline>'' rawData of
            [] \<Rightarrow> ret ()
          | d # _ \<Rightarrow> setattr self ''date'' (Str d)) (\<lambda>_.
     bnd (lift (item0 (findall_group ''ethos="'' ''"'' rawData))) (\<lambda>ethos.
     bnd (setattr self ''ethos'' (Str (capitalize (gameStringToRead ethos)))) (\<lambda>_.
     bnd (lift (item0 (findall_group ''heritage="'' ''"'' rawData))) (\<lambda>heritage.
     bnd (setattr self ''heritage'' (Str (capitalize (gameStringToRead heritage)))) (\<lambda>_.
     bnd (lift (item0 (findall_group ''language="'' ''"'' rawData))) (\<lambda>language.
     bnd (setattr self ''language'' (Str (capitalize (gameStringToRead language)))) (\<lambda>_.
     bnd (setattr self ''parents'' (List [])) (\<lambda>_.
     bnd (case findall_group ''parents={'' ''}'' rawData of
            [] \<Rightarrow> ret ()
          | inner # _ \<Rightarrow>
              for_each (list_tokens inner) (\<lambda>parent.
                bnd (culture_parent rec parent) (\<lambda>a.
                append_attr self ''parents'' (Ref a)))) (\<lambda>_.
     bnd (lift (list_field ''traditions'' rawData)) (\<lambda>traditions.
     bnd (setattr self ''traditions''
            (List (map (\<lambda>tradition. Str (gameStringToRead tradition)) traditions))) (\<lambda>_.
     bnd (lift (item0 (findall_group ''martial_custom="'' ''"'' rawData))) (\<lambda>martial.
     bnd (setattr self ''martial'' (Str (gameStringToRead martial))) (\<lambda>_.
     bnd (register_cul culid self) (\<lambda>_.
     ret self))))))))))))))))))))\<close>

section \<open>Houses and dynasties\<close>

text \<open>
  \<^verbatim>\<open>
  class gDynn:
      def __init__(self, dynid:str, allData:str, env:Environment, path:str, house:bool = True) -> None:
          if house:
              rawData = findHouseData(dynid, allData)
              knownDyns[dynid] = self
          else:
              rawData = findDynastyData(dynid, allData)
          findName = re.findall(r'name="(.*?)"', rawData, re.S)
          try:
              self.name = gameStringToRead(findName[0])
          except:
              findName = re.findall(r'key="(.*?)"', rawData, re.S)
              self.name = gameStringToRead(findName[0].replace('dynn_','').replace('_',''))
          self.dynid = dynid
          try:
              findDate = re.findall(r'found_date=(.*?)\n', rawData, re.S)
              self.date = findDate[0]
          except IndexError:
              self.date = 'Time immemorial...'
          if house:
              findParent = re.findall(r'\tdynasty=(.*?)\n', rawData, re.S)
              parentId = findParent[0]
              self.parent = gDynn(parentId, allData, env, path, False)
              self.members = allData.count('dynasty_house=%s' % dynid)
          else:
              self.houses = allData.count('dynasty=%s' % dynid)
              findprestige_tot = re.findall(r'accumulated=(.*?)\n', rawData, re.S)[0]
              self.prestige_tot = findprestige_tot
              findPrestige = re.findall(r'currency=(.*?)\n', rawData, re.S)[0]
              self.prestige = findPrestige
              try:
                  findPerks = re.findall(r'perk={ (.*?) }', rawData, re.S)[0]
                  perks = findPerks.split(' ')
                  perkDict = {}
                  for perk in perks:
                      perk = perk.replace('"', '')
                      key = gameStringToRead(perk[:-2])
                      val = int(perk[len(perk) - 1:])
                      if key in perkDict.keys():
                          if val > perkDict[key]:
                              perkDict[key] = val
                      else:
                          perkDict[key] = val
                  self.perks = perkDict
              except IndexError:
                  self.perks = {}
          try:
              findHistorical = re.findall(r'historical={(.*?)}', rawData, re.S)
              historicalLeaders = findHistorical[0].split(' ')[1:-1]
          except IndexError:
              historicalLeaders = []
          leaders = []
          for leader in historicalLeaders:
              leaders.append(getChrNameOrObj(leader, allData))
          self.leaders = leaders
          if house:
              knownDyns[dynid] = self
  \<close>
  Only a house is written to \<^verbatim>\<open>knownDyns\<close>; the parent dynasty of a house is constructed
  without looking at any registry.
\<close>

fun perk_levels :: "string list \<Rightarrow> (string \<times> int) list \<Rightarrow> py_error + (string \<times> int) list" where
  \<open>perk_levels [] perkDict = Inr perkDict\<close>
| \<open>perk_levels (perk0 # perks) perkDict =
     (let perk = replace ''"'' [] perk0;
          key = gameStringToRead (take (length perk - 2) perk)
      in case py_int (drop (length perk - 1) perk) of
           Inl e \<Rightarrow> Inl e
         | Inr val \<Rightarrow>
             (case map_of perkDict key of
                Some old \<Rightarrow> perk_levels perks (if val > old then dict_set perkDict key val else perkDict)
              | None \<Rightarrow> perk_levels perks (dict_set perkDict key val)))\<close>

fun leaders_loop :: "string list \<Rightarrow> string \<Rightarrow> pyval list run" where
  "leaders_loop [] allData = ret []"
| "leaders_loop (leader # rest) allData =
     bnd (getChrNameOrObj leader allData) (\<lambda>v.
     bnd (leaders_loop rest allData) (\<lambda>vs.
     ret (v # vs)))"

definition gDynn :: "(req \<Rightarrow> nat run) \<Rightarrow> string \<Rightarrow> string \<Rightarrow> bool \<Rightarrow> nat run" where
  \<open>gDynn rec dynid allData house =
     bnd (alloc CDynn) (\<lambda>self.
     bnd (if house then
            bnd (lift (findHouseData dynid allData)) (\<lambda>rawData.
            bnd (register_dyn dynid self) (\<lambda>_.
            ret rawData))
          else lift (findDynastyData dynid allData)) (\<lambda>rawData.
     bnd (try_except
            (bnd (lift (item0 (findall_group ''name="'' ''"'' rawData))) (\<lambda>n.
             setattr self ''name'' (Str (gameStringToRead n))))
            (bnd (lift (item0 (findall_group ''key="'' ''"'' rawData))) (\<lambda>k.
             setattr self ''name'' (Str (gameStringToRead (replace ''_'' [] (replace ''dynn_'' [] k))))))) (\<lambda>_.
     bnd (setattr self ''dynid'' (Str dynid)) (\<lambda>_.
     bnd (try_except_IndexError
            (bnd (lift (item0 (findall_group ''found_date='' ''\<newline>'' rawData))) (\<lambda>d.
             setattr self ''date'' (Str d)))
            (setattr self ''date'' (Str ''Time immemorial...''))) (\<lambda>_.
     bnd (if house then
            bnd (lift (item0 (findall_group (tab @ ''dynasty='') ''\<newline>'' rawData))) (\<lambda>parentId.
            bnd (rec (NewDynn parentId False)) (\<lambda>parent.
            bnd (setattr self ''parent'' (Ref parent)) (\<lambda>_.
            setattr self ''members'' (Num (int (py_count (''dynasty_house='' @ dynid) allData))))))
          else
            bnd (setattr self ''houses'' (Num (int (py_count (''dynasty='' @ dynid) allData)))) (\<lambda>_.
            bnd (lift (item0 (findall_group ''accumulated='' ''\<newline>'' rawData))) (\<lambda>prestige_tot.
            bnd (setattr self ''prestige_tot'' (Str prestige_tot)) (\<lambda>_.
            bnd (lift (item0 (findall_group ''currency='' ''\<newline>'' rawData))) (\<lambda>prestige.
            bnd (setattr self ''prestige'' (Str prestige)) (\<lambda>_.
            try_except_IndexError
              (bnd (lift (item0 (findall_group ''perk={ '' '' }'' rawData))) (\<lambda>findPerks.
               bnd (lift (perk_levels (py_split CHR '' '' findPerks) [])) (\<lambda>perkDict.
               setattr self ''perks'' (Dict (map (\<lambda>(k, v). (k, Num v)) perkDict)))))
              (setattr self ''perks'' (Dict [])))))))) (\<lambda>_.
     bnd (leaders_loop
            (case list_field ''historical'' rawData of Inl e \<Rightarrow> [] | Inr tokens \<Rightarrow> tokens)
            allData) (\<lambda>leaders.
     bnd (setattr self ''leaders'' (List leaders)) (\<lambda>_.
     bnd (if house then register_dyn dynid self else ret ()) (\<lambda>_.
     ret self)))))))))\<close>

section \<open>Characters\<close>

text \<open>
  \<^verbatim>\<open>
  def findLinkedChars(charids:list, limit:int, allData:str, env:Environment, path:str) -> list:
      global knownChars
      chars = []
      for char in charids:
          try:
              charData = findCharData(char, allData)
              if limit > 0:
                  try:
                      if char in knownChars.keys():
                          chars.append(knownChars[char])
                      else:
                          chars.append(gChar(char, allData, env, path, limit-1))
                  except:
                      findName = re.findall(r'first_name="(.*?)"', charData, re.S)
                      chars.append(gameStringToRead(findName[0].replace('_','')))
              else:
                  findName = re.findall(r'first_name="(.*?)"', charData, re.S)
                  chars.append(gameStringToRead(findName[0].replace('_','')))
          except:
              pass
      return chars
  \<close>
  \<open>char_ref\<close> is the test \<^verbatim>\<open>if char in knownChars.keys()\<close> with its two branches, which the
  source repeats for kills and vassals.  \<open>linked_char\<close> is one round of the loop: the
  entries it appends for one identifier (none or one).
\<close>

definition char_ref :: "(req \<Rightarrow> nat run) \<Rightarrow> int \<Rightarrow> string \<Rightarrow> nat run" where
  "char_ref rec limit charid =
     (\<lambda>s. case map_of (knownChars s) charid of
             Some a \<Rightarrow> ret a s
           | None \<Rightarrow> rec (NewChar charid limit) s)"

definition linked_char :: "(req \<Rightarrow> nat run) \<Rightarrow> int \<Rightarrow> string \<Rightarrow> string \<Rightarrow> pyval list run" where
  "linked_char rec limit allData char =
     try_except
       (bnd (lift (findCharData char allData)) (\<lambda>charData.
        if limit > 0 then
          try_except
            (bnd (char_ref rec (limit - 1) char) (\<lambda>a. ret [Ref a]))
            (bnd (lift (char_display_name charData)) (\<lambda>name. ret [Str name]))
        else bnd (lift (char_display_name charData)) (\<lambda>name. ret [Str name])))
       (ret [])"

fun findLinkedChars :: "(req \<Rightarrow> nat run) \<Rightarrow> string list \<Rightarrow> int \<Rightarrow> string \<Rightarrow> pyval list run" where
  "findLinkedChars rec [] limit allData = ret []"
| "findLinkedChars rec (char # charids) limit allData =
     bnd (linked_char rec limit allData char) (\<lambda>entries.
     bnd (findLinkedChars rec charids limit allData) (\<lambda>more.
     ret (entries @ more)))"

text \<open>
  \<^verbatim>\<open>gChar.__init__\<close>, in the order of the source.  Identity, name and birth:
  \<^verbatim>\<open>
  try:
      rawData = findCharData(charid, allData)
  except Exception as e:
      print('Finding character data of charid %s failed' % charid)
      print(e.with_traceback())
  knownChars[charid] = self
  self.charid = charid
  findName = re.findall(r'first_name="(.*?)"', rawData, re.S)
  self.name = gameStringToRead(findName[0].replace('_',''))
  findBirth = re.findall(r'birth=(.*?)\n', rawData, re.S)
  self.birth = findBirth[0]
  \<close>
  (\<^verbatim>\<open>e.with_traceback()\<close> lacks its argument, so the handler raises \<^verbatim>\<open>TypeError\<close>.)
\<close>

definition gChar_identity :: "nat \<Rightarrow> string \<Rightarrow> string \<Rightarrow> string run" where
  "gChar_identity self charid allData =
     bnd (try_except (lift (findCharData charid allData)) (raise TypeError)) (\<lambda>rawData.
     bnd (register_char charid self) (\<lambda>_.
     bnd (setattr self ''charid'' (Str charid)) (\<lambda>_.
     bnd (lift (char_display_name rawData)) (\<lambda>name.
     bnd (setattr self ''name'' (Str name)) (\<lambda>_.
     bnd (lift (item0 (findall_group ''birth='' ''\<newline>'' rawData))) (\<lambda>birth.
     bnd (setattr self ''birth'' (Str birth)) (\<lambda>_.
     ret rawData)))))))"

text \<open>
  \<^verbatim>\<open>
  findCulture = re.findall(r'culture=(.*?)\n', rawData, re.S)
  if len(findCulture) > 0:
      culid = findCulture[0]
      if culid in knownCuls.keys():
          self.culture = knownCuls[culid]
      else:
          self.culture = gCulture(culid, allData, env, path)
  else:
      self.culture = 'Lost to time...'
  findFaith = re.findall(r'faith=(.*?)\n', rawData, re.S)
  (the same with knownFaiths, gFaith and self.faith)
  \<close>
\<close>

definition culture_ref :: "(req \<Rightarrow> nat run) \<Rightarrow> string \<Rightarrow> nat run" where
  "culture_ref rec culid =
     (\<lambda>s. case map_of (knownCuls s) culid of
             Some a \<Rightarrow> ret a s
           | None \<Rightarrow> rec (NewCulture culid) s)"

definition faith_ref :: "(req \<Rightarrow> nat run) \<Rightarrow> string \<Rightarrow> nat run" where
  "faith_ref rec faid =
     (\<lambda>s. case map_of (knownFaiths s) faid of
             Some a \<Rightarrow> ret a s
           | None \<Rightarrow> rec (NewFaith faid) s)"

definition gChar_culture_faith :: "(req \<Rightarrow> nat run) \<Rightarrow> nat \<Rightarrow> string \<Rightarrow> unit run" where
  "gChar_culture_faith rec self rawData =
     bnd (case findall_group ''culture='' ''\<newline>'' rawData of
            culid # _ \<Rightarrow> bnd (culture_ref rec culid) (\<lambda>a. setattr self ''culture'' (Ref a))
          | [] \<Rightarrow> setattr self ''culture'' (Str ''Lost to time...'')) (\<lambda>_.
     case findall_group ''faith='' ''\<newline>'' rawData of
       faid # _ \<Rightarrow> bnd (faith_ref rec faid) (\<lambda>a. setattr self ''faith'' (Ref a))
     | [] \<Rightarrow> setattr self ''faith'' (Str ''Lost to time...''))"

text \<open>
  \<^verbatim>\<open>
  try:
      findNick = re.findall(r'nickname="(.*?)"', rawData, re.S)
      self.nick = gameStringToRead(findNick[0])
  except:
      self.nick = ''
      pass
  findDna = re.findall(r'dna="(.*?)"', rawData, re.S)
  if len(findDna) > 0:
      self.dna = findDna[0]
  findSkills = re.findall(r'skill={(.*?)}', rawData, re.S)
  self.skills = findSkills[0].split(' ')
  findTraits = re.findall(r'traits={(.*?)}', rawData, re.S)
  traits = []
  if len(findTraits):
      findTraits = findTraits[0].split(' ')[1:-1]
      for trait in findTraits:
          traits.append(getTrait(int(trait)))
  self.traits = traits
  findRecessive = re.findall(r'recessive_traits={(.*?)}', rawData, re.S)
  self.recessive = []
  if len(findRecessive) > 0:
      for trait in findRecessive[0].split(' ')[1:-1]:
          self.recessive.append(getTrait(int(trait)))
  \<close>
\<close>

definition gChar_traits :: "string list \<Rightarrow> nat \<Rightarrow> string \<Rightarrow> unit run" where
  \<open>gChar_traits lookup self rawData =
     bnd (try_except
            (bnd (lift (item0 (findall_group ''nickname="'' ''"'' rawData))) (\<lambda>nick.
             setattr self ''nick'' (Str (gameStringToRead nick))))
            (setattr self ''nick'' (Str []))) (\<lambda>_.
     bnd (case findall_group ''dna="'' ''"'' rawData of
            dna # _ \<Rightarrow> setattr self ''dna'' (Str dna)
          | [] \<Rightarrow> ret ()) (\<lambda>_.
     bnd (lift (skills_field rawData)) (\<lambda>skills.
     bnd (setattr self ''skills'' (List (map Str skills))) (\<lambda>_.
     bnd (case findall_group ''traits={'' ''}'' rawData of
            inner # _ \<Rightarrow> lift (trait_names lookup (list_tokens inner))
          | [] \<Rightarrow> ret []) (\<lambda>traits.
     bnd (setattr self ''traits'' (List (map Str traits))) (\<lambda>_.
     bnd (setattr self ''recessive'' (List [])) (\<lambda>_.
     case findall_group ''recessive_traits={'' ''}'' rawData of
       inner # _ \<Rightarrow>
         for_each (list_tokens inner) (\<lambda>trait.
           bnd (lift (py_int trait)) (\<lambda>i.
           append_attr self ''recessive'' (Str (getTrait lookup i))))
     | [] \<Rightarrow> ret ())))))))\<close>

text \<open>
  \<^verbatim>\<open>
  familyData = re.findall(r'family_data={(.*?)\t}', rawData, re.S)
  if len(familyData) > 0:
      familyData = familyData[0]
      findSpouse = re.findall(r'\tspouse=(.*?)\n', familyData, re.S)
      if len(findSpouse) > 0:
          self.spouses = findLinkedChars(findSpouse, limit, allData, env, path)
      findFormer = re.findall(r'former_spouses={(.*?)}', familyData, re.S)
      if len(findFormer) > 0:
          formerSpouses = findFormer[0].split(' ')[1:-1]
          self.former = findLinkedChars(formerSpouses, limit, allData, env, path)
      findChildren = re.findall(r'child={(.*?)}', familyData, re.S)
      if len(findChildren) > 0:
          children = findChildren[0].split(' ')[1:-1]
          self.children = findLinkedChars(children, limit, allData, env, path)
  \<close>
\<close>

definition gChar_family :: "(req \<Rightarrow> nat run) \<Rightarrow> nat \<Rightarrow> string \<Rightarrow> string \<Rightarrow> int \<Rightarrow> unit run" where
  "gChar_family rec self rawData allData limit =
     (case findall_group ''family_data={'' (tab @ ''}'') rawData of
        [] \<Rightarrow> ret ()
      | familyData # _ \<Rightarrow>
          bnd (case findall_group (tab @ ''spouse='') ''\<newline>'' familyData of
                 [] \<Rightarrow> ret ()
               | findSpouse \<Rightarrow>
                   bnd (findLinkedChars rec findSpouse limit allData) (\<lambda>chars.
                   setattr self ''spouses'' (List chars))) (\<lambda>_.
          bnd (case findall_group ''former_spouses={'' ''}'' familyData of
                 [] \<Rightarrow> ret ()
               | inner # _ \<Rightarrow>
                   bnd (findLinkedChars rec (list_tokens inner) limit allData) (\<lambda>chars.
                   setattr self ''former'' (List chars))) (\<lambda>_.
          case findall_group ''child={'' ''}'' familyData of
            [] \<Rightarrow> ret ()
          | inner # _ \<Rightarrow>
              bnd (findLinkedChars rec (list_tokens inner) limit allData) (\<lambda>chars.
              setattr self ''children'' (List chars)))))"

text \<open>
  \<^verbatim>\<open>
  findDynasty = re.findall(r'dynasty_house=(.*?)\n', rawData, re.S)
  if len(findDynasty) > 0:
      self.dynastyId = findDynasty[0]
      if self.dynastyId in knownDyns.keys():
          self.house = knownDyns[self.dynastyId]
      else:
          self.house = gDynn(self.dynastyId, allData, env, path)
  else:
      self.house = 'Lowborn'
  \<close>
\<close>

definition house_ref :: "(req \<Rightarrow> nat run) \<Rightarrow> string \<Rightarrow> nat run" where
  "house_ref rec dynid =
     (\<lambda>s. case map_of (knownDyns s) dynid of
             Some a \<Rightarrow> ret a s
           | None \<Rightarrow> rec (NewDynn dynid True) s)"

definition gChar_house :: "(req \<Rightarrow> nat run) \<Rightarrow> nat \<Rightarrow> string \<Rightarrow> unit run" where
  "gChar_house rec self rawData =
     (case findall_group ''dynasty_house='' ''\<newline>'' rawData of
        dynastyId # _ \<Rightarrow>
          bnd (setattr self ''dynastyId'' (Str dynastyId)) (\<lambda>_.
          bnd (house_ref rec dynastyId) (\<lambda>a.
          setattr self ''house'' (Ref a)))
      | [] \<Rightarrow> setattr self ''house'' (Str ''Lowborn''))"

text \<open>
  The domain, in both the dead and the living branch:
  \<^verbatim>\<open>
  findDomain = re.findall(r'domain={(.*?)}', rawData, re.S)
  titleList = findDomain[0].split(' ')[1:-1]
  self.titles = []
  for title in titleList:
      if title in knownTitles.keys():
          self.titles.append(knownTitles[title])
      else:
          self.titles.append(gTitle(title, allData, env, path))
  \<close>
\<close>

definition title_ref :: "(req \<Rightarrow> nat run) \<Rightarrow> string \<Rightarrow> nat run" where
  "title_ref rec title =
     (\<lambda>s. case map_of (knownTitles s) title of
             Some a \<Rightarrow> ret a s
           | None \<Rightarrow> rec (NewTitle title True True) s)"

definition gChar_titles :: "(req \<Rightarrow> nat run) \<Rightarrow> nat \<Rightarrow> string \<Rightarrow> unit run" where
  "gChar_titles rec self rawData =
     bnd (lift (list_field ''domain'' rawData)) (\<lambda>titleList.
     bnd (setattr self ''titles'' (List [])) (\<lambda>_.
     for_each titleList (\<lambda>title.
       bnd (title_ref rec title) (\<lambda>a.
       append_attr self ''titles'' (Ref a)))))"

text \<open>
  The dead branch:
  \<^verbatim>\<open>
  self.dead = True
  self.date = re.findall(r'date=(.*?)\n', rawData, re.S)[0]
  self.reason = gameStringToRead(re.findall(r'reason="(.*?)"\n', rawData, re.S)[0])
  findLiege = re.findall(r'liege=(.*?)\n', rawData, re.S)
  if len(findLiege) > 0:
      liege = findLiege[0]
      if(liege != charid):
          self.liege = liege
  findGovernment = re.findall(r'government="(.*?)"', rawData, re.S)
  if len(findGovernment) > 0:
      self.government = findGovernment[0]
      (the domain)
  else:
      self.government = 'Unlanded'
  \<close>
\<close>

definition gChar_dead :: "(req \<Rightarrow> nat run) \<Rightarrow> nat \<Rightarrow> string \<Rightarrow> string \<Rightarrow> unit run" where
  \<open>gChar_dead rec self charid rawData =
     bnd (setattr self ''dead'' (Bool True)) (\<lambda>_.
     bnd (lift (item0 (findall_group ''date='' ''\<newline>'' rawData))) (\<lambda>date.
     bnd (setattr self ''date'' (Str date)) (\<lambda>_.
     bnd (lift (item0 (findall_group ''reason="'' ''"\<newline>'' rawData))) (\<lambda>reason.
     bnd (setattr self ''reason'' (Str (gameStringToRead reason))) (\<lambda>_.
     bnd (case findall_group ''liege='' ''\<newline>'' rawData of
            liege # _ \<Rightarrow> if liege \<noteq> charid then setattr self ''liege'' (Str liege) else ret ()
          | [] \<Rightarrow> ret ()) (\<lambda>_.
     case findall_group ''government="'' ''"'' rawData of
       government # _ \<Rightarrow>
         bnd (setattr self ''government'' (Str government)) (\<lambda>_.
         gChar_titles rec self rawData)
     | [] \<Rightarrow> setattr self ''government'' (Str ''Unlanded'')))))))\<close>

text \<open>
  The kills and the vassals of a living character:
  \<^verbatim>\<open>
  findKills = re.findall(r'kills={(.*?)}', rawData, re.S)
  if len(findKills) > 0 and limit > 0:
      killList = findKills[0].split(' ')[1:-1]
      self.kills = []
      for dead in killList:
          if dead in knownChars.keys():
              self.kills.append(knownChars[dead])
          else:
              self.kills.append(gChar(dead, allData, env, path, limit - 1))
  \<close>
  \<^verbatim>\<open>
  findVassals = re.findall(r'vassal_contracts={(.*?)}', rawData, re.S)
  if len(findVassals) > 0 and limit > 0:
      self.vassals = []
      for vassal in findVassals[0].split(' ')[1:-1]:
          try:
              vassalId = findVassal(vassal, allData)
              if vassalId in knownChars.keys():
                  self.vassals.append(knownChars[vassalId])
              else:
                  self.vassals.append(gChar(vassalId, allData, env, path, limit - 1))
          except:
              pass
  \<close>
\<close>

definition gChar_kills :: "(req \<Rightarrow> nat run) \<Rightarrow> nat \<Rightarrow> string \<Rightarrow> int \<Rightarrow> unit run" where
  "gChar_kills rec self rawData limit =
     (case findall_group ''kills={'' ''}'' rawData of
        inner # _ \<Rightarrow>
          if limit > 0 then
            bnd (setattr self ''kills'' (List [])) (\<lambda>_.
            for_each (list_tokens inner) (\<lambda>dead.
              bnd (char_ref rec (limit - 1) dead) (\<lambda>a.
              append_attr self ''kills'' (Ref a))))
          else ret ()
      | [] \<Rightarrow> ret ())"

definition gChar_vassal :: "(req \<Rightarrow> nat run) \<Rightarrow> nat \<Rightarrow> string \<Rightarrow> int \<Rightarrow> string \<Rightarrow> unit run" where
  "gChar_vassal rec self allData limit vassal =
     try_except
       (bnd (lift (findVassal vassal allData)) (\<lambda>vassalId.
        bnd (char_ref rec (limit - 1) vassalId) (\<lambda>a.
        append_attr self ''vassals'' (Ref a))))
       (ret ())"

definition gChar_vassals :: "(req \<Rightarrow> nat run) \<Rightarrow> nat \<Rightarrow> string \<Rightarrow> string \<Rightarrow> int \<Rightarrow> unit run" where
  "gChar_vassals rec self rawData allData limit =
     (case findall_group ''vassal_contracts={'' ''}'' rawData of
        inner # _ \<Rightarrow>
          if limit > 0 then
            bnd (setattr self ''vassals'' (List [])) (\<lambda>_.
            for_each (list_tokens inner) (gChar_vassal rec self allData limit))
          else ret ()
      | [] \<Rightarrow> ret ())"

text \<open>
  The living branch:
  \<^verbatim>\<open>
  self.dead = False
  findGold = re.findall(r'gold=(.*?)\n', rawData, re.S)
  self.gold = findGold[0]
  findPiety = re.findall(r'accumulated=(.*?)\n', rawData, re.S)
  self.piety = findPiety[0]
  self.prestige = findPiety[0]
  (the kills)
  findLanguages = re.findall(r'languages={(.*?)}', rawData, re.S)
  if len(findLanguages) > 0:
      self.languages = []
      for lang in findLanguages:
          self.languages.append(lang.replace('language_', ''))
  findGovernment = re.findall(r'government="(.*?)"', rawData, re.S)
  if len(findGovernment) > 0:
      self.government = findGovernment[0]
      (the domain, the vassals)
      findDread = re.findall(r'dread=(.*?)\n', rawData, re.S)
      if len(findDread):
          self.dread = findDread[0]
      else:
          self.dread = 0
      findStrength = re.findall(r'current_strength=(.*?)\n', rawData, re.S)
      if len(findStrength) > 0:
          self.strength = findStrength[0]
      else:
          self.strength = 0
  else:
      self.government = 'Unlanded'
  findMemories = re.findall(r'memories={(.*?)}', rawData, re.S)[0].split(' ')[1:-1]
  if len(findMemories) > 0:
      self.memories = []
      for memory in findMemories:
          self.memories.append(gMem(memory, allData))
  \<close>
\<close>

definition gChar_alive :: "(req \<Rightarrow> nat run) \<Rightarrow> nat \<Rightarrow> string \<Rightarrow> string \<Rightarrow> int \<Rightarrow> unit run" where
  \<open>gChar_alive rec self rawData allData limit =
     bnd (setattr self ''dead'' (Bool False)) (\<lambda>_.
     bnd (lift (item0 (findall_group ''gold='' ''\<newline>'' rawData))) (\<lambda>gold.
     bnd (setattr self ''gold'' (Str gold)) (\<lambda>_.
     bnd (lift (item0 (findall_group ''accumulated='' ''\<newline>'' rawData))) (\<lambda>piety.
     bnd (setattr self ''piety'' (Str piety)) (\<lambda>_.
     bnd (setattr self ''prestige'' (Str piety)) (\<lambda>_.
     bnd (gChar_kills rec self rawData limit) (\<lambda>_.
     bnd (case findall_group ''languages={'' ''}'' rawData of
            [] \<Rightarrow> ret ()
          | findLanguages \<Rightarrow>
              setattr self ''languages''
                (List (map (\<lambda>lang. Str (replace ''language_'' [] lang)) findLanguages))) (\<lambda>_.
     bnd (case findall_group ''government="'' ''"'' rawData of
            government # _ \<Rightarrow>
              bnd (setattr self ''government'' (Str government)) (\<lambda>_.
              bnd (gChar_titles rec self rawData) (\<lambda>_.
              bnd (gChar_vassals rec self rawData allData limit) (\<lambda>_.
              bnd (case findall_group ''dread='' ''\<newline>'' rawData of
                     dread # _ \<Rightarrow> setattr self ''dread'' (Str dread)
                   | [] \<Rightarrow> setattr self ''dread'' (Num 0)) (\<lambda>_.
              case findall_group ''current_strength='' ''\<newline>'' rawData of
                strength # _ \<Rightarrow> setattr self ''strength'' (Str strength)
              | [] \<Rightarrow> setattr self ''strength'' (Num 0)))))
          | [] \<Rightarrow> setattr self ''government'' (Str ''Unlanded'')) (\<lambda>_.
     bnd (lift (list_field ''memories'' rawData)) (\<lambda>findMemories.
     if findMemories \<noteq> [] then
       bnd (setattr self ''memories'' (List [])) (\<lambda>_.
       for_each findMemories (\<lambda>memory.
         bnd (gMem memory allData) (\<lambda>m.
         append_attr self ''memories'' (Ref m))))
     else ret ()))))))))))\<close>

text \<open>
  The whole constructor: the sections above,
  \<^verbatim>\<open>
  if 'dead_data' in rawData:
      (the dead branch)
  else:
      (the living branch)
  knownChars[charid] = self
  \<close>
\<close>

definition gChar :: "(req \<Rightarrow> nat run) \<Rightarrow> string list \<Rightarrow> string \<Rightarrow> string \<Rightarrow> int \<Rightarrow> nat run" where
  "gChar rec lookup charid allData limit =
     bnd (alloc CChar) (\<lambda>self.
     bnd (gChar_identity self charid allData) (\<lambda>rawData.
     bnd (gChar_culture_faith rec self rawData) (\<lambda>_.
     bnd (gChar_traits lookup self rawData) (\<lambda>_.
     bnd (gChar_family rec self rawData allData limit) (\<lambda>_.
     bnd (gChar_house rec self rawData) (\<lambda>_.
     bnd (if contains ''dead_data'' rawData
          then gChar_dead rec self charid rawData
          else gChar_alive rec self rawData allData limit) (\<lambda>_.
     bnd (register_char charid self) (\<lambda>_.
     ret self))))))))"

section \<open>Lineages and the resolver\<close>

text \<open>
  \<^verbatim>\<open>
  class lChar: #lineage character
      def __init__(self, rawData:str, allData:str, env:Environment, path:str, limit:int):
          findCharid = re.findall(r'character=(.*?)\n', rawData, re.S)
          self.charid = findCharid[0]
          findDate = re.findall(r'date=(.*?)\n', rawData, re.S)
          self.date = findDate[0]
          #we create a page for this character and save it to extract select elements
          charVar = gChar(self.charid, allData, env, path, limit)
          self.name = charVar.name
          self.nick = charVar.nick
          self.house = charVar.house
          try:
              findScore = re.findall(r'score=(.*?)\n', rawData, re.S)
              self.score = findScore[0]
              findLifestyle = re.findall(r'lifestyle="(.*?)"', rawData, re.S)
              self.lifestyle = gameStringToRead(findLifestyle[0])
              findPerks = re.findall(r'perk="(.*?)"', rawData, re.S)
              self.perks = []
              for perk in findPerks:
                  self.perks.append(gameStringToRead(perk))
          except:
              self.score = "This character's legacy is still undecided"
              self.lifestyle = ""
              self.perks = ""
  \<close>
  The character is constructed with \<^verbatim>\<open>gChar(...)\<close> directly; \<^verbatim>\<open>knownChars\<close> is not
  consulted.
\<close>

definition lChar :: "(req \<Rightarrow> nat run) \<Rightarrow> string \<Rightarrow> int \<Rightarrow> nat run" where
  \<open>lChar rec rawData limit =
     bnd (alloc CLChar) (\<lambda>self.
     bnd (lift (item0 (findall_group ''character='' ''\<newline>'' rawData))) (\<lambda>charid.
     bnd (setattr self ''charid'' (Str charid)) (\<lambda>_.
     bnd (lift (item0 (findall_group ''date='' ''\<newline>'' rawData))) (\<lambda>date.
     bnd (setattr self ''date'' (Str date)) (\<lambda>_.
     bnd (rec (NewChar charid limit)) (\<lambda>charVar.
     bnd (getattr charVar ''name'') (\<lambda>name.
     bnd (setattr self ''name'' name) (\<lambda>_.
     bnd (getattr charVar ''nick'') (\<lambda>nick.
     bnd (setattr self ''nick'' nick) (\<lambda>_.
     bnd (getattr charVar ''house'') (\<lambda>house.
     bnd (setattr self ''house'' house) (\<lambda>_.
     bnd (try_except
            (bnd (lift (item0 (findall_group ''score='' ''\<newline>'' rawData))) (\<lambda>score.
             bnd (setattr self ''score'' (Str score)) (\<lambda>_.
             bnd (lift (item0 (findall_group ''lifestyle="'' ''"'' rawData))) (\<lambda>lifestyle.
             bnd (setattr self ''lifestyle'' (Str (gameStringToRead lifestyle))) (\<lambda>_.
             setattr self ''perks''
               (List (map (\<lambda>perk. Str (gameStringToRead perk))
                        (findall_group ''perk="'' ''"'' rawData))))))))
            (bnd (setattr self ''score'' (Str (''This character'' @ [CHR 0x27] @ ''s legacy is still undecided''))) (\<lambda>_.
             bnd (setattr self ''lifestyle'' (Str [])) (\<lambda>_.
             setattr self ''perks'' (Str []))))) (\<lambda>_.
     ret self)))))))))))))\<close>

text \<open>
  \<^verbatim>\<open>
  class gLineage: #game lineage
      def __init__(self, rawData:str, allData:str, env:Environment, limit:int) -> None:
          findPlayer = re.findall(r'name="(.*?)"', rawData, re.S)
          self.player = findPlayer[0]
          (directories are created)
          legacyData = re.findall(r'legacy={(.*?)\n }', rawData, re.S)[0]
          charsData = re.findall(r'{(.*?)\t}', legacyData, re.S)
          self.chars = []
          sTs = []
          for charData in charsData:
              char = lChar(charData, allData, env, path, limit)
              sTs.append(sT)
              self.chars.append(char)
          print('Lineage mapping done|Avg s/it: ' + str(round(sum(sTs)/len(sTs),2)))
  \<close>
  Of the progress report only the division by the number of entries is kept, which
  raises on a lineage without entries.
\<close>

definition gLineage :: "(req \<Rightarrow> nat run) \<Rightarrow> string \<Rightarrow> int \<Rightarrow> nat run" where
  \<open>gLineage rec rawData limit =
     bnd (alloc CLineage) (\<lambda>self.
     bnd (lift (item0 (findall_group ''name="'' ''"'' rawData))) (\<lambda>player.
     bnd (setattr self ''player'' (Str player)) (\<lambda>_.
     bnd (lift (item0 (findall_group ''legacy={'' ''\<newline> }'' rawData))) (\<lambda>legacyData.
     bnd (setattr self ''chars'' (List [])) (\<lambda>_.
     bnd (for_each (findall_group ''{'' (tab @ ''}'') legacyData) (\<lambda>charData.
            bnd (lChar rec charData limit) (\<lambda>char.
            append_attr self ''chars'' (Ref char)))) (\<lambda>_.
     bnd (if findall_group ''{'' (tab @ ''}'') legacyData = [] then raise ZeroDivisionError else ret ()) (\<lambda>_.
     ret self)))))))\<close>

text \<open>
  The resolver ties the constructors together.  Its first argument bounds the nesting
  depth of constructor calls; when the bound is exhausted the result is \<open>None\<close>, which no
  \<^verbatim>\<open>except\<close> clause turns into a value.  A request returns when some bound gives a result;
  a request whose result is \<open>None\<close> for every bound is an unbounded recursion (which the
  Python interpreter ends with \<^verbatim>\<open>RecursionError\<close> at its stack limit).
\<close>

primrec resolve :: "nat \<Rightarrow> string list \<Rightarrow> string \<Rightarrow> req \<Rightarrow> nat run" where
  "resolve 0 lookup allData r = (\<lambda>s. None)"
| "resolve (Suc n) lookup allData r =
     (case r of
        NewChar charid limit \<Rightarrow> gChar (resolve n lookup allData) lookup charid allData limit
      | NewCulture culid \<Rightarrow> gCulture (resolve n lookup allData) culid allData
      | NewFaith faid \<Rightarrow> gFaith (resolve n lookup allData) faid allData
      | NewTitle titleid lookUp lookDown \<Rightarrow> gTitle (resolve n lookup allData) titleid allData lookUp lookDown
      | NewDynn dynid house \<Rightarrow> gDynn (resolve n lookup allData) dynid allData house)"

text \<open>
  The driver's call \<^verbatim>\<open>gLineage(lineageData, data, Environment(...), limit=1)\<close> for one
  \<^verbatim>\<open>played_character\<close> block, from empty registries.
\<close>

definition run_lineage :: "nat \<Rightarrow> string list \<Rightarrow> string \<Rightarrow> string \<Rightarrow> int \<Rightarrow> ((py_error + nat) \<times> state) option" where
  "run_lineage n lookup allData lineageData limit =
     gLineage (resolve n lookup allData) lineageData limit empty_state"

section \<open>Observations and sample documents\<close>

text \<open>
  What a run returned, the state it left, and the objects of a class that carry a given
  identifier.
\<close>

definition outcome :: "((py_error + 'a) \<times> state) option \<Rightarrow> (py_error + 'a) option" where
  "outcome r = map_option fst r"

definition state_after :: "((py_error + 'a) \<times> state) option \<Rightarrow> state" where
  "state_after r = (case r of None \<Rightarrow> empty_state | Some (_, s) \<Rightarrow> s)"

definition instances :: "cls \<Rightarrow> string \<Rightarrow> string \<Rightarrow> state \<Rightarrow> nat list" where
  "instances c idattr ident s =
     filter (\<lambda>a. fst (heap s ! a) = c \<and> attr_of s a idattr = Some (Str ident)) [0..<length (heap s)]"

text \<open>A resolver that fails on every request, and one that never returns.\<close>

definition failing_rec :: "req \<Rightarrow> nat run" where
  "failing_rec r = raise IndexError"

text \<open>A dead character, and a lineage whose two entries name that character.\<close>

definition dead_char :: "string \<Rightarrow> string \<Rightarrow> string" where
  \<open>dead_char charid name =
     ''\<newline>'' @ charid @ ''={\<newline>'' @ tab @ ''first_name="'' @ name @ ''"\<newline>''
     @ tab @ ''birth=1000.1.1\<newline>''
     @ tab @ ''skill={ 1 2 3 4 5 6 }\<newline>''
     @ tab @ ''dead_data={\<newline>''
     @ tab @ tab @ ''date=1050.1.1\<newline>''
     @ tab @ tab @ ''reason="death_old_age"\<newline>''
     @ tab @ ''}\<newline>}''\<close>

definition lineage_block :: string where
  \<open>lineage_block =
     ''played_character={\<newline>'' @ tab @ ''name="Player"\<newline>''
     @ tab @ ''legacy={ {\<newline>''
     @ tab @ tab @ ''character=1\<newline>''
     @ tab @ tab @ ''date=1020.1.1\<newline>''
     @ tab @ ''} {\<newline>''
     @ tab @ tab @ ''character=1\<newline>''
     @ tab @ tab @ ''date=1030.1.1\<newline>''
     @ tab @ ''}\<newline> }\<newline>}''\<close>

definition lineage_doc :: string where
  "lineage_doc = dead_char ''1'' ''Ann'' @ ''\<newline>'' @ lineage_block"

text \<open>
  A living character 1 whose kill list names 2 and 3; character 3 has a block, character
  2 has none.
\<close>

definition killer_doc :: string where
  \<open>killer_doc =
     ''\<newline>1={\<newline>'' @ tab @ ''first_name="Bo"\<newline>''
     @ tab @ ''birth=1000.1.1\<newline>''
     @ tab @ ''skill={ 1 2 3 4 5 6 }\<newline>''
     @ tab @ ''gold=10\<newline>''
     @ tab @ ''accumulated=20\<newline>''
     @ tab @ ''kills={ 2 3 }\<newline>''
     @ tab @ ''memories={ }\<newline>}''
     @ dead_char ''3'' ''Cy''\<close>

section \<open>The regions of an identifier, read off the document\<close>

text \<open>
  The specification speaks of the textual matches of an identifier's region
  \<^verbatim>\<open><id>={...}\<close>, scanned in document order.  Read off the document, without the regular
  expression: a region starts at the first place where the opening text stands, runs
  through at least one character and ends with the nearest closing text behind it; the
  next region is looked for behind that closing text.
\<close>

function regions :: "string \<Rightarrow> string \<Rightarrow> string \<Rightarrow> string list" where
  "regions opener closer data =
     (if opener = [] then []
      else case find_first opener data of
             None \<Rightarrow> []
           | Some (before, x) \<Rightarrow>
               (case x of
                  [] \<Rightarrow> []
                | c # y \<Rightarrow>
                    (case find_first closer y of
                       None \<Rightarrow> []
                     | Some (body, rest) \<Rightarrow>
                         (opener @ c # body @ closer) # regions opener closer rest)))"
  by pat_completeness auto
termination
proof (relation "measure (\<lambda>(opener, closer, data). length data)")
  show "wf (measure (\<lambda>(opener, closer, data). length data))" by simp
next
  fix opener closer data :: string and x2 :: "string \<times> string" and before x :: string
    and c :: char and y :: string and x2a :: "string \<times> string" and body rest :: string
  assume "find_first opener data = Some x2" and "(before, x) = x2" and "x = c # y"
    and "find_first closer y = Some x2a" and "(body, rest) = x2a"
  then have "length x \<le> length data" and "length rest \<le> length y" and "length x = Suc (length y)"
    using find_first_length by (metis, metis, simp)
  then show "((opener, closer, rest), (opener, closer, data)) \<in> measure (\<lambda>(opener, closer, data). length data)"
    by simp
qed

declare regions.simps [simp del]

text \<open>
  Two blocks for identifier 5, of which the second holds \<^verbatim>\<open>dynasty=\<close>; and two blocks
  for identifier 1, of which the first holds its first-name field on its second line.
\<close>

definition house_old :: string where
  \<open>house_old = ''\<newline>5={\<newline>'' @ tab @ ''name="Old"\<newline>}''\<close>

definition house_new :: string where
  \<open>house_new = ''\<newline>5={\<newline>'' @ tab @ ''name="New"\<newline>'' @ tab @ ''dynasty=9\<newline>}''\<close>

definition houses_doc :: string where
  "houses_doc = house_old @ house_new"

definition block_A :: string where
  \<open>block_A = ''\<newline>1={\<newline>'' @ tab @ ''birth=1\<newline>'' @ tab @ ''first_name="A"\<newline>}''\<close>

definition block_B :: string where
  \<open>block_B = ''\<newline>1={\<newline>'' @ tab @ ''first_name="B"\<newline>}''\<close>

definition two_blocks_doc :: string where
  "two_blocks_doc = block_A @ block_B"

text \<open>A character block with a skill list and a trait list of the same shape.\<close>

definition skills_block :: string where
  \<open>skills_block =
     ''\<newline>1={\<newline>'' @ tab @ ''first_name="A"\<newline>''
     @ tab @ ''skill={ 1 2 3 }\<newline>''
     @ tab @ ''traits={ 1 2 3 }\<newline>}''\<close>

text \<open>
  A small realm: culture 30, faith 40 whose head is title 50, dynasty 20 with its houses
  10 and 11, the dead characters 1 (of house 10) and 2 (of house 11), and a lineage
  whose entries name character 1, character 1 again and character 2.
\<close>

definition culture_block :: "string \<Rightarrow> string \<Rightarrow> string" where
  \<open>culture_block culid parents =
     ''\<newline>'' @ tab @ tab @ culid @ ''={\<newline>''
     @ tab @ tab @ tab @ ''name="norse"\<newline>''
     @ tab @ tab @ tab @ ''ethos="ethos_bellicose"\<newline>''
     @ tab @ tab @ tab @ ''heritage="heritage_north_germanic"\<newline>''
     @ tab @ tab @ tab @ ''language="language_norse"\<newline>''
     @ parents
     @ tab @ tab @ tab @ ''traditions={ tradition_seafaring }\<newline>''
     @ tab @ tab @ tab @ ''martial_custom="martial_custom_male_only"\<newline>''
     @ tab @ tab @ ''}''\<close>

definition cultures_section :: "string \<Rightarrow> string" where
  "cultures_section blocks = ''\<newline>'' @ tab @ ''cultures={'' @ blocks @ ''\<newline>}''"

definition faiths_section :: string where
  \<open>faiths_section =
     ''\<newline>'' @ tab @ ''faiths={''
     @ ''\<newline>'' @ tab @ tab @ ''40={\<newline>''
     @ tab @ tab @ tab @ ''tag="old_faith"\<newline>''
     @ tab @ tab @ tab @ ''fervor=50\<newline>''
     @ tab @ tab @ tab @ ''doctrine="tenet_sun_worship"\<newline>''
     @ tab @ tab @ tab @ ''religion=7\<newline>''
     @ tab @ tab @ tab @ ''religious_head=50\<newline>''
     @ tab @ tab @ tab @ ''holy_sites={ 1 2 }''
     @ ''\<newline>'' @ tab @ tab @ ''}''
     @ ''\<newline>}''\<close>

definition title_block :: "string \<Rightarrow> string \<Rightarrow> string \<Rightarrow> string \<Rightarrow> string" where
  \<open>title_block titleid key name relations =
     ''\<newline>'' @ titleid @ ''={\<newline>''
     @ tab @ ''key="'' @ key @ ''"\<newline>''
     @ tab @ ''name="'' @ name @ ''"\<newline>''
     @ relations @ ''}''\<close>

definition house_block :: "string \<Rightarrow> string \<Rightarrow> string \<Rightarrow> string" where
  \<open>house_block dynid name parent =
     ''\<newline>'' @ dynid @ ''={\<newline>''
     @ tab @ ''name="'' @ name @ ''"\<newline>''
     @ tab @ ''dynasty='' @ parent @ ''\<newline>}''\<close>

definition dynasty_block :: "string \<Rightarrow> string \<Rightarrow> string" where
  \<open>dynasty_block dynid name =
     ''\<newline>'' @ dynid @ ''={\<newline>''
     @ tab @ ''name="'' @ name @ ''"\<newline>''
     @ tab @ ''prestige={\<newline>''
     @ tab @ tab @ ''currency=100\<newline>''
     @ tab @ tab @ ''accumulated=250\<newline>''
     @ tab @ ''}\<newline>}''\<close>

definition dead_member :: "string \<Rightarrow> string \<Rightarrow> string \<Rightarrow> string" where
  \<open>dead_member charid name house =
     ''\<newline>'' @ charid @ ''={\<newline>'' @ tab @ ''first_name="'' @ name @ ''"\<newline>''
     @ tab @ ''birth=1000.1.1\<newline>''
     @ tab @ ''culture=30\<newline>''
     @ tab @ ''faith=40\<newline>''
     @ tab @ ''skill={ 1 2 3 4 5 6 }\<newline>''
     @ tab @ ''dynasty_house='' @ house @ ''\<newline>''
     @ tab @ ''dead_data={\<newline>''
     @ tab @ tab @ ''date=1050.1.1\<newline>''
     @ tab @ tab @ ''reason="death_old_age"\<newline>''
     @ tab @ ''}\<newline>}''\<close>

definition lineage_entry :: "string \<Rightarrow> string \<Rightarrow> string" where
  "lineage_entry charid date =
     '' {\<newline>'' @ tab @ tab @ ''character='' @ charid @ ''\<newline>''
     @ tab @ tab @ ''date='' @ date @ ''\<newline>'' @ tab @ ''}''"

definition realm_lineage :: string where
  \<open>realm_lineage =
     ''played_character={\<newline>'' @ tab @ ''name="Player"\<newline>''
     @ tab @ ''legacy={''
     @ lineage_entry ''1'' ''1020.1.1''
     @ lineage_entry ''1'' ''1030.1.1''
     @ lineage_entry ''2'' ''1040.1.1''
     @ ''\<newline> }\<newline>}''\<close>

definition realm_doc :: string where
  "realm_doc =
     cultures_section (culture_block ''30'' [])
     @ faiths_section
     @ title_block ''50'' ''k_sun'' ''Sunland'' []
     @ house_block ''10'' ''Elder'' ''20''
     @ house_block ''11'' ''Cadet'' ''20''
     @ dynasty_block ''20'' ''Founders''
     @ dead_member ''1'' ''Ann'' ''10''
     @ dead_member ''2'' ''Bea'' ''11''
     @ ''\<newline>'' @ realm_lineage"

text \<open>Two cultures, each the parent of the other.\<close>

definition culture_cycle_doc :: string where
  "culture_cycle_doc =
     cultures_section
       (culture_block ''1'' (tab @ tab @ tab @ ''parents={ 2 }\<newline>'')
        @ culture_block ''2'' (tab @ tab @ tab @ ''parents={ 1 }\<newline>''))"

text \<open>Two titles, each the de jure liege and a de jure vassal of the other.\<close>

definition title_cycle_doc :: string where
  "title_cycle_doc =
     title_block ''1'' ''d_east'' ''East''
       (tab @ ''de_jure_liege=2\<newline>'' @ tab @ ''de_jure_vassals={ 2 }\<newline>'')
     @ title_block ''2'' ''k_west'' ''West''
       (tab @ ''de_jure_liege=1\<newline>'' @ tab @ ''de_jure_vassals={ 1 }\<newline>'')"

text \<open>
  The Identity Registry as the specification words it (\<^verbatim>\<open>get_or_create\<close>): the registry
  of the request's kind is looked up first; an identifier that is present yields the
  registered object and nothing else happens, an absent one is handed to the factory.
  Both houses and dynasties are looked up in \<^verbatim>\<open>knownDyns\<close>, the only registry the source
  has for them.
\<close>

definition registered :: "req \<Rightarrow> state \<Rightarrow> nat option" where
  "registered r s =
     (case r of
        NewChar charid limit \<Rightarrow> map_of (knownChars s) charid
      | NewCulture culid \<Rightarrow> map_of (knownCuls s) culid
      | NewFaith faid \<Rightarrow> map_of (knownFaiths s) faid
      | NewTitle titleid lookUp lookDown \<Rightarrow> map_of (knownTitles s) titleid
      | NewDynn dynid house \<Rightarrow> map_of (knownDyns s) dynid)"

definition get_or_create :: "(req \<Rightarrow> nat run) \<Rightarrow> req \<Rightarrow> nat run" where
  "get_or_create factory r =
     (\<lambda>s. case registered r s of
             Some a \<Rightarrow> Some (Inr a, s)
           | None \<Rightarrow> factory r s)"

text \<open>What a run returned, together with the objects of a class that carry an identifier.\<close>

definition built ::
  "cls \<Rightarrow> string \<Rightarrow> string \<Rightarrow> ((py_error + 'a) \<times> state) option \<Rightarrow> ((py_error + 'a) \<times> nat list) option" where
  "built c idattr ident r =
     (case r of None \<Rightarrow> None | Some (v, s) \<Rightarrow> Some (v, instances c idattr ident s))"

definition dynasty_doc :: string where
  "dynasty_doc = house_block ''10'' ''Elder'' ''20'' @ dynasty_block ''20'' ''Founders''"

definition is_dynasty :: "req \<Rightarrow> bool" where
  "is_dynasty r = (case r of NewDynn dynid house \<Rightarrow> \<not> house | _ \<Rightarrow> False)"

text \<open>Two houses of one dynasty.\<close>

definition two_houses_doc :: string where
  "two_houses_doc =
     house_block ''10'' ''Elder'' ''20'' @ house_block ''11'' ''Cadet'' ''20''
     @ dynasty_block ''20'' ''Founders''"

section \<open>Facts about the string primitives\<close>






















section \<open>The display-name normalizer: determinism and idempotence\<close>

lemma gameStringToRead_pipeline:
  "gameStringToRead s =
     capitalize (lower (replace ''_'' '' '' (foldl (\<lambda>s marker. replace marker [] s) s strip_markers)))"
  by (simp add: gameStringToRead_def strip_markers_def Let_def)






text \<open>
  C9.  \<open>gameStringToRead\<close> is a total function of its argument alone (no registry or
  other state is read, and none of the string operations it is built from can raise): on
  every input it returns the string obtained by removing the fixed, ordered list of markers
  once each, front to back, then turning the remaining underscores into spaces,
  lower-casing and capitalizing the first letter.
\<close>

theorem gameStringToRead_total_deterministic:
  "gameStringToRead s = to_display s"
  by (simp only: gameStringToRead_pipeline to_display_def)




section \<open>Block locators\<close>

lemma starts_with_append: "starts_with p (p @ y)"
  by (induction p) auto

lemma contains_prefix: "contains p (p @ y)"
  by (cases "p @ y") (auto simp: starts_with_append dest: sym [of "p @ y"] simp del: append_eq_Cons_conv)

lemma contains_append: "contains p (x @ p @ y)"
proof (induction x)
  case Nil
  show ?case using contains_prefix by simp
next
  case (Cons c x)
  then show ?case by simp
qed

lemma anchor_loop_find:
  "anchor_loop anchor hits i =
     (case List.find (contains anchor) (drop i hits) of None \<Rightarrow> Inl IndexError | Some b \<Rightarrow> Inr b)"
proof (induction anchor hits i rule: anchor_loop.induct)
  case (1 anchor hits i)
  show ?case
  proof (cases "length hits \<le> i")
    case True
    then show ?thesis by (simp add: anchor_loop.simps [of anchor hits i])
  next
    case False
    then have d: "drop i hits = hits ! i # drop (Suc i) hits"
      by (simp add: Cons_nth_drop_Suc)
    show ?thesis
    proof (cases "contains anchor (hits ! i)")
      case True
      then show ?thesis using False d by (simp add: anchor_loop.simps [of anchor hits i])
    next
      case c: False
      then have "anchor_loop anchor hits i = anchor_loop anchor hits (i + 1)"
        using False by (simp add: anchor_loop.simps [of anchor hits i])
      then show ?thesis using "1.IH" [OF False c] c d by simp
    qed
  qed
qed

lemma find_first_tl_None: "find_first B (c # cs) = None \<Longrightarrow> find_first B cs = None"
  by (auto split: if_splits option.splits)

lemma find_first_drop_None: "find_first B s = None \<Longrightarrow> find_first B (drop j s) = None"
proof (induction j arbitrary: s)
  case 0
  then show ?case by simp
next
  case (Suc j)
  show ?case
  proof (cases s)
    case Nil
    then show ?thesis using Suc.prems by simp
  next
    case (Cons c cs)
    then have "find_first B cs = None" using Suc.prems find_first_tl_None by blast
    then show ?thesis using Suc.IH Cons by simp
  qed
qed

lemma re_lazy_no_opener: "find_first A s = None \<Longrightarrow> re_lazy A k B s = []"
proof (induction s)
  case Nil
  then show ?case by simp
next
  case (Cons c cs)
  then have "\<not> starts_with A (c # cs)" and "find_first A cs = None"
    by (auto split: if_splits option.splits)
  then show ?case using Cons.IH by simp
qed

lemma starts_with_decompose: "starts_with A s \<Longrightarrow> s = A @ drop (length A) s"
  by (induction A s rule: starts_with.induct) auto

lemma re_lazy_skip:
  "find_first A s = Some (before, x) \<Longrightarrow> re_lazy A k B s = re_lazy A k B (A @ x)"
proof (induction s arbitrary: before)
  case Nil
  then show ?case by (simp split: if_splits)
next
  case (Cons c cs)
  show ?case
  proof (cases "starts_with A (c # cs)")
    case True
    then have "x = drop (length A) (c # cs)" using Cons.prems by simp
    then have "c # cs = A @ x" using starts_with_decompose [OF True] by simp
    then show ?thesis by simp
  next
    case False
    then obtain b where "find_first A cs = Some (b, x)"
      using Cons.prems by (auto split: option.splits)
    then have "re_lazy A k B cs = re_lazy A k B (A @ x)" by (rule Cons.IH)
    then show ?thesis using False by simp
  qed
qed

lemma re_lazy_unclosed:
  "find_first B (drop (k + length A) s) = None \<Longrightarrow> re_lazy A k B s = []"
proof (induction s)
  case Nil
  then show ?case by simp
next
  case (Cons c cs)
  have "find_first B (drop (k + length A) cs) = None"
    using find_first_drop_None [OF Cons.prems, of 1] by (simp add: drop_Suc tl_drop)
  then have ih: "re_lazy A k B cs = []" by (rule Cons.IH)
  show ?case
  proof (cases "A \<noteq> [] \<and> starts_with A (c # cs)")
    case True
    then have "drop k (drop (length A - 1) cs) = drop (k + length A) (c # cs)"
      by (cases A) (simp_all add: add.commute)
    then show ?thesis using True ih Cons.prems by simp
  next
    case False
    then show ?thesis using ih by auto
  qed
qed

lemma re_lazy_head1:
  assumes "A \<noteq> []" and "find_first B y = Some (body, rest)"
  shows "re_lazy A 1 B (A @ c # y) = (A @ c # body @ B, c # body) # re_lazy A 1 B rest"
proof -
  obtain a as where A: "A = a # as" using assms(1) by (cases A) auto
  have "starts_with A (a # as @ c # y)" using starts_with_append [of A "c # y"] A by simp
  moreover have "drop (length A - 1) (as @ c # y) = c # y" using A by simp
  ultimately have "re_lazy A 1 B (a # as @ c # y) = (A @ c # body @ B, c # body) # re_lazy A 1 B rest"
    using assms by simp
  then show ?thesis using A by simp
qed

lemma findall_whole1_regions:
  "closer \<noteq> [] \<Longrightarrow> findall_whole1 opener closer data = regions opener closer data"
proof (induction opener closer data rule: regions.induct)
  case (1 opener closer data)
  note ne = "1.prems"
  show ?case
  proof (cases "opener = []")
    case True
    have "re_lazy [] k B s = []" for k B s by (induction s) simp_all
    moreover have "regions [] closer data = []" by (simp add: regions.simps [of "[]" closer data])
    ultimately show ?thesis using True by (simp add: findall_whole1_def)
  next
    case op: False
    show ?thesis
    proof (cases "find_first opener data")
      case None
      then show ?thesis using op
        by (simp add: findall_whole1_def re_lazy_no_opener regions.simps [of opener closer data])
    next
      case fo: (Some p)
      obtain before x where p: "p = (before, x)" by (cases p)
      have skip: "re_lazy opener 1 closer data = re_lazy opener 1 closer (opener @ x)"
        using fo p re_lazy_skip by blast
      show ?thesis
      proof (cases x)
        case Nil
        have "find_first closer (drop (1 + length opener) (opener @ x)) = None"
          using Nil ne by simp
        then have "re_lazy opener 1 closer (opener @ x) = []" by (rule re_lazy_unclosed)
        then show ?thesis using op fo p Nil skip
          by (simp add: findall_whole1_def regions.simps [of opener closer data])
      next
        case (Cons c y)
        show ?thesis
        proof (cases "find_first closer y")
          case None
          then have "find_first closer (drop (1 + length opener) (opener @ x)) = None"
            using Cons by simp
          then have "re_lazy opener 1 closer (opener @ x) = []" by (rule re_lazy_unclosed)
          then show ?thesis using op fo p Cons None skip
            by (simp add: findall_whole1_def regions.simps [of opener closer data])
        next
          case (Some q)
          obtain body rest where q: "q = (body, rest)" by (cases q)
          have "re_lazy opener 1 closer (opener @ c # y)
                  = (opener @ c # body @ closer, c # body) # re_lazy opener 1 closer rest"
            using op Some q by (intro re_lazy_head1) auto
          moreover have "findall_whole1 opener closer rest = regions opener closer rest"
            using "1.IH" op fo p Cons Some q ne by auto
          ultimately show ?thesis using op fo p Cons Some q skip
            by (simp add: findall_whole1_def regions.simps [of opener closer data])
        qed
      qed
    qed
  qed
qed

text \<open>
  C8 (as amended).  For an identifier made of digits, the candidates of a locator are the
  regions of the document for that identifier, in document order: for a house or a
  dynasty those that open with the identifier, \<^verbatim>\<open>={\<close>, a line break and a tab; for a
  character those whose first line is the first-name field.  \<open>findHouseData\<close> returns the
  first candidate that holds \<^verbatim>\<open>dynasty=\<close>, \<open>findDynastyData\<close> the first that holds
  \<^verbatim>\<open>prestige=\<close>, \<open>findCharData\<close> the first candidate; each fails with \<^verbatim>\<open>IndexError\<close>
  when there is none, and none returns a block without its anchor.
\<close>

theorem locators_first_anchored_region:
  assumes "list_all is_digit ident"
  shows "findHouseData ident data =
           (case List.find (contains ''dynasty='') (regions (''\<newline>'' @ ident @ ''={\<newline>'' @ tab) ''\<newline>}'' data) of
              None \<Rightarrow> Inl IndexError | Some b \<Rightarrow> Inr b)
       \<and> findDynastyData ident data =
           (case List.find (contains ''prestige='') (regions (''\<newline>'' @ ident @ ''={\<newline>'' @ tab) ''\<newline>}'' data) of
              None \<Rightarrow> Inl IndexError | Some b \<Rightarrow> Inr b)
       \<and> findCharData ident data =
           (case regions (''\<newline>'' @ ident @ ''={\<newline>'' @ tab @ ''first_name='') ''\<newline>}'' data of
              [] \<Rightarrow> Inl IndexError | b # _ \<Rightarrow> Inr b)"
proof -
  have "block_hits ident data = regions (''\<newline>'' @ ident @ ''={\<newline>'' @ tab) ''\<newline>}'' data"
    unfolding block_hits_def by (rule findall_whole1_regions) simp
  moreover have "char_hits ident data =
      regions (''\<newline>'' @ ident @ ''={\<newline>'' @ tab @ ''first_name='') ''\<newline>}'' data"
    unfolding char_hits_def by (rule findall_whole1_regions) simp
  ultimately show ?thesis
    by (simp add: findHouseData_def findDynastyData_def findCharData_def anchor_loop_find item0_def)
qed

theorem locators_first_anchored_region_witness:
  "list_all is_digit ''5''
   \<and> findHouseData ''5'' houses_doc = Inr house_new
   \<and> findDynastyData ''5'' houses_doc = Inl IndexError
   \<and> findCharData ''1'' two_blocks_doc = Inr block_B"
proof -
  have d5: "list_all is_digit ''5''" and d1: "list_all is_digit ''1''"
    by (simp_all add: is_digit_def)
  have h: "(case List.find (contains ''dynasty='') (regions (''\<newline>'' @ ''5'' @ ''={\<newline>'' @ tab) ''\<newline>}'' houses_doc) of
              None \<Rightarrow> Inl IndexError | Some b \<Rightarrow> Inr b) = Inr house_new"
    by code_simp
  have p: "(case List.find (contains ''prestige='') (regions (''\<newline>'' @ ''5'' @ ''={\<newline>'' @ tab) ''\<newline>}'' houses_doc) of
              None \<Rightarrow> Inl IndexError | Some b \<Rightarrow> Inr b) = (Inl IndexError :: py_error + string)"
    by code_simp
  have c: "(case regions (''\<newline>'' @ ''1'' @ ''={\<newline>'' @ tab @ ''first_name='') ''\<newline>}'' two_blocks_doc of
              [] \<Rightarrow> Inl IndexError | b # _ \<Rightarrow> Inr b) = Inr block_B"
    by code_simp
  show ?thesis
    using locators_first_anchored_region [OF d5, of houses_doc]
      locators_first_anchored_region [OF d1, of two_blocks_doc] d5 h p c
    by simp
qed

text \<open>
  C8 as stated fails for characters: a region of identifier 1 that holds its first-name
  field on a later line is passed over, although it is the first region of that
  identifier with a first-name field.
\<close>

theorem findCharData_skips_first_region_counterexample:
  "findCharData ''1'' two_blocks_doc = Inr block_B
   \<and> List.find (contains ''first_name='') (regions (''\<newline>1={\<newline>'' @ tab) ''\<newline>}'' two_blocks_doc) = Some block_A
   \<and> block_A \<noteq> block_B"
  by code_simp

section \<open>Bracketed list fields\<close>

lemma py_split_token:
  "sep \<notin> set w \<Longrightarrow> py_split sep (w @ sep # r) = w # py_split sep r"
  by (induction w) auto

lemma py_split_padded:
  assumes "\<forall>w \<in> set ws. sep \<notin> set w" and "sep \<notin> set w0"
  shows "py_split sep (w0 @ concat (map (\<lambda>w. sep # w) ws) @ [sep]) = w0 # ws @ [[]]"
  using assms
proof (induction ws arbitrary: w0)
  case Nil
  then show ?case by (simp add: py_split_token)
next
  case (Cons w ws)
  then have "py_split sep (w @ concat (map (\<lambda>w. sep # w) ws) @ [sep]) = w # ws @ [[]]"
    by simp
  then show ?case using Cons.prems by (simp add: py_split_token)
qed

lemma list_tokens_padded:
  assumes "\<forall>w \<in> set ws. CHR '' '' \<notin> set w"
  shows "list_tokens (concat (map (\<lambda>w. CHR '' '' # w) ws) @ '' '') = ws"
proof -
  have "py_split CHR '' '' ([] @ concat (map (\<lambda>w. CHR '' '' # w) ws) @ '' '') = [] # ws @ [[]]"
    using assms by (intro py_split_padded) auto
  then show ?thesis by (simp add: list_tokens_def slice_1_m1_def)
qed

lemma find_first_char:
  "b \<notin> set inner \<Longrightarrow> find_first [b] (inner @ b # rest) = Some (inner, rest)"
  by (induction inner) auto

lemma re_lazy_head:
  assumes "A \<noteq> []" and "find_first B x = Some (mid, after)"
  shows "re_lazy A 0 B (A @ x) = (A @ mid @ B, mid) # re_lazy A 0 B after"
proof -
  obtain a as where A: "A = a # as" using assms(1) by (cases A) auto
  have "starts_with A (a # as @ x)" using starts_with_append [of A x] A by simp
  moreover have "drop (length A - 1) (as @ x) = x" using A by simp
  ultimately have "re_lazy A 0 B (a # as @ x) = (A @ mid @ B, mid) # re_lazy A 0 B after"
    using assms by simp
  then show ?thesis using A by simp
qed

lemma findall_group_head:
  assumes "A \<noteq> []" and "b \<notin> set inner"
  shows "item0 (findall_group A [b] (A @ inner @ b # rest)) = Inr inner"
proof -
  have "find_first [b] (inner @ b # rest) = Some (inner, rest)"
    using assms(2) by (rule find_first_char)
  then have "re_lazy A 0 [b] (A @ inner @ b # rest) = (A @ inner @ [b], inner) # re_lazy A 0 [b] rest"
    using assms(1) by (rule re_lazy_head [rotated])
  then show ?thesis by (simp add: findall_group_def item0_def)
qed

text \<open>
  The fields read with the \<^verbatim>\<open>split(' ')[1:-1]\<close> idiom: when the first occurrence of
  \<^verbatim>\<open>field={\<close> in the block is followed by the tokens \<open>ws\<close>, each preceded by a blank, one
  more blank and the closing brace, the field yields exactly \<open>ws\<close>.
\<close>

lemma list_field_drops_padding:
  assumes "\<forall>w \<in> set ws. CHR '' '' \<notin> set w \<and> CHR ''}'' \<notin> set w"
    and "find_first (field @ ''={'') rawData =
           Some (before, concat (map (\<lambda>w. CHR '' '' # w) ws) @ '' }'' @ rest)"
  shows "list_field field rawData = Inr ws"
proof -
  let ?inner = "concat (map (\<lambda>w. CHR '' '' # w) ws) @ '' ''"
  have "re_lazy (field @ ''={'') 0 ''}'' rawData
          = re_lazy (field @ ''={'') 0 ''}'' ((field @ ''={'') @ ?inner @ CHR ''}'' # rest)"
    using re_lazy_skip [OF assms(2)] by simp
  then have "findall_group (field @ ''={'') ''}'' rawData
          = findall_group (field @ ''={'') ''}'' ((field @ ''={'') @ ?inner @ CHR ''}'' # rest)"
    by (simp only: findall_group_def)
  moreover have "CHR ''}'' \<notin> set ?inner" using assms(1) by auto
  then have "item0 (findall_group (field @ ''={'') ''}'' ((field @ ''={'') @ ?inner @ CHR ''}'' # rest)) = Inr ?inner"
    by (intro findall_group_head) auto
  moreover have "list_tokens ?inner = ws" using assms(1) by (intro list_tokens_padded) auto
  ultimately show ?thesis by (simp add: list_field_def)
qed

text \<open>
  C6.  In a character block whose skill list and trait list both read \<^verbatim>\<open>{ 1 2 3 }\<close>, the
  trait list yields the three tokens, as the claim says of every list field; the skill
  list, which the source splits without the slice \<^verbatim>\<open>[1:-1]\<close>, keeps the two empty tokens
  of the padding.
\<close>

theorem skills_field_keeps_padding:
  "skills_field skills_block = Inr ['''', ''1'', ''2'', ''3'', '''']
   \<and> list_field ''traits'' skills_block = Inr [''1'', ''2'', ''3'']"
  by code_simp

section \<open>The trait lookup\<close>

lemma gameStringToRead_empty: "gameStringToRead [] = []"
  by (simp add: gameStringToRead_def lower_def capitalize_def is_ascii_def ascii_lower_def)

text \<open>
  C5 (as amended).  For a zero-based trait index outside the lookup table (negative, or
  at least the number of lines), \<open>getTrait\<close> raises nothing: \<^verbatim>\<open>linecache.getline\<close> yields
  the empty string, and the normalizer turns it into the empty name, which is what
  \<open>getTrait\<close> returns.
\<close>

theorem getTrait_out_of_range:
  assumes "traitId < 0 \<or> int (length lookup) \<le> traitId"
  shows "getTrait lookup traitId = []"
  using assms by (auto simp add: getTrait_def getline_def gameStringToRead_empty)

theorem getTrait_out_of_range_witness:
  "((7::int) < 0 \<or> int (length lookup2) \<le> 7) \<and> getTrait lookup2 7 = []"
  using getTrait_out_of_range [of 7 lookup2] by (simp add: lookup2_def)

text \<open>
  C5 as stated fails: with a table of two lines, the trait list \<^verbatim>\<open>0 7\<close> is resolved
  without any error, and the stale index 7 is neither surfaced nor skipped; it is stored
  as an empty trait name beside the name of trait 0.
\<close>

theorem getTrait_stale_index_counterexample:
  "trait_names lookup2 [''0'', ''7''] = Inr [''Brave\<newline>'', '''']"
  by code_simp

section \<open>Title names\<close>

text \<open>
  C7.  The prefix rule is coded as a chain of substring tests (\<^verbatim>\<open>'b_' in findKey[0]\<close>
  first), not as tests of the key's prefix.  The title with key \<^verbatim>\<open>c_bab_al_abwab\<close> and no
  article field starts with \<^verbatim>\<open>c_\<close> and holds \<^verbatim>\<open>b_\<close> further on, and is named a barony
  where the claim requires \<^verbatim>\<open>County of Derbent\<close>.
\<close>

theorem getTitleName_county_key_named_barony:
  "getTitleName ''7'' title_doc = Inr ''Barony of Derbent''"
  by code_simp

end
